theory Spec2Isabelle
  imports
    Complex_Main
    "HOL-Library.Word"
    "HOL-Library.Multiset"
    "HOL-Library.Char_ord"
    "HOL-Library.List_Lexorder"
begin

section \<open>Tracing configuration of the HTTP connection manager (pilot, tracing.go)\<close>

subsection \<open>Go values: float64, strings, decimal numerals\<close>

text \<open>
  A Go \<^verbatim>\<open>float64\<close>. The code only compares such values with constants and copies
  them, so a value is a rational (every finite float64 is one; \<^verbatim>\<open>-0.0\<close> and
  \<^verbatim>\<open>0.0\<close> compare equal in Go and are one value here), an infinity, or NaN.
\<close>

datatype float64 = Finite rat | PosInf | NegInf | NaN

text \<open>Go's \<^verbatim>\<open><\<close>, \<^verbatim>\<open>>\<close> and \<^verbatim>\<open>!=\<close> on float64 (IEEE 754: every
  ordered comparison with NaN is false, \<^verbatim>\<open>!=\<close> with NaN is true).\<close>

fun float_lt :: "float64 \<Rightarrow> float64 \<Rightarrow> bool" where
  "float_lt (Finite a) (Finite b) = (a < b)"
| "float_lt (Finite a) PosInf = True"
| "float_lt NegInf (Finite b) = True"
| "float_lt NegInf PosInf = True"
| "float_lt _ _ = False"

definition float_gt :: "float64 \<Rightarrow> float64 \<Rightarrow> bool" where
  "float_gt a b = float_lt b a"

fun float_ne :: "float64 \<Rightarrow> float64 \<Rightarrow> bool" where
  "float_ne NaN _ = True"
| "float_ne _ NaN = True"
| "float_ne a b = (a \<noteq> b)"

text \<open>Membership in the closed interval \<open>[0,100]\<close> of percentages.\<close>

fun in_percent_range :: "float64 \<Rightarrow> bool" where
  "in_percent_range (Finite a) = (0 \<le> a \<and> a \<le> 100)"
| "in_percent_range _ = False"

text \<open>Equality of two strings after mapping the ASCII letters \<open>A\<close> to \<open>Z\<close> to lower case.
  On strings of ASCII characters this is what \<^verbatim>\<open>strings.EqualFold\<close> computes; it
  serves the concrete configurations below, whose names are ASCII.\<close>

definition toLowerASCII :: "char \<Rightarrow> char" where
  "toLowerASCII c =
     (case map_of (zip ''ABCDEFGHIJKLMNOPQRSTUVWXYZ'' ''abcdefghijklmnopqrstuvwxyz'') c of
        Some l \<Rightarrow> l
      | None \<Rightarrow> c)"

definition EqualFold_ASCII :: "string \<Rightarrow> string \<Rightarrow> bool" where
  "EqualFold_ASCII s t = (map toLowerASCII s = map toLowerASCII t)"

text \<open>Decimal rendering of an integer, as \<^verbatim>\<open>%d\<close> of \<^verbatim>\<open>fmt.Sprintf\<close> prints it.\<close>

definition digit_char :: "nat \<Rightarrow> char" where
  "digit_char d = ''0123456789'' ! d"

function itoa_nat :: "nat \<Rightarrow> string" where
  "itoa_nat n = (if n < 10 then [digit_char n] else itoa_nat (n div 10) @ [digit_char (n mod 10)])"
  by pat_completeness auto
termination
  by (relation "measure (\<lambda>n. n)") auto

declare itoa_nat.simps [simp del]

definition itoa :: "int \<Rightarrow> string" where
  "itoa i = (if i < 0 then CHR ''-'' # itoa_nat (nat (- i)) else itoa_nat (nat i))"

text \<open>\<^verbatim>\<open>strconv.Atoi\<close> (Go standard library, 64-bit \<^verbatim>\<open>int\<close>): an optional sign, then
  one or more decimal digits and nothing else; a value outside the int range is an error
  too. The caller only tests the error against nil, so the model has one error value.\<close>

datatype strconv_error = NumError

definition is_digit :: "char \<Rightarrow> bool" where
  "is_digit c = (CHR ''0'' \<le> c \<and> c \<le> CHR ''9'')"

definition digit_val :: "char \<Rightarrow> int" where
  "digit_val c = int (of_char c) - 48"

definition digits_val :: "string \<Rightarrow> int" where
  "digits_val ds = foldl (\<lambda>n ch. n * 10 + digit_val ch) 0 ds"

definition Atoi :: "string \<Rightarrow> strconv_error + int" where
  "Atoi s =
     (let neg = (s \<noteq> [] \<and> hd s = CHR ''-'');
          ds = (if s \<noteq> [] \<and> (hd s = CHR ''-'' \<or> hd s = CHR ''+'') then tl s else s)
      in if ds = [] \<or> \<not> list_all is_digit ds then Inl NumError
         else let n = (if neg then - digits_val ds else digits_val ds)
              in if n < - (2 ^ 63) \<or> 2 ^ 63 - 1 < n then Inl NumError else Inr n)"

text \<open>A valid positive integer, as a port has to be: decimal digits, at least one, with
  an optional plus sign before them, whose value is at least 1 and fits a Go \<^verbatim>\<open>int\<close>.\<close>

definition is_positive_integer :: "string \<Rightarrow> bool" where
  "is_positive_integer s =
     (let ds = (case s of [] \<Rightarrow> [] | c # r \<Rightarrow> if c = CHR ''+'' then r else s)
      in ds \<noteq> [] \<and> list_all is_digit ds \<and> 1 \<le> digits_val ds \<and> digits_val ds \<le> 2 ^ 63 - 1)"

subsection \<open>The generated tracing block (envoy's HttpConnectionManager.Tracing)\<close>

datatype CustomTag_Type =
    CustomTag_Environment string string
  | CustomTag_RequestHeader string string
  | CustomTag_Literal string

record CustomTag =
  Tag :: string
  Type :: CustomTag_Type

datatype OpenCensusConfig_TraceContext =
    OpenCensusConfig_B3
  | OpenCensusConfig_CLOUD_TRACE_CONTEXT
  | OpenCensusConfig_GRPC_TRACE_BIN
  | OpenCensusConfig_TRACE_CONTEXT

record TraceConfig =
  MaxNumberOfAnnotations :: "64 word"
  MaxNumberOfAttributes :: "64 word"
  MaxNumberOfMessageEvents :: "64 word"

record StsService =
  TokenExchangeServiceUri :: string
  SubjectTokenPath :: string
  SubjectTokenType :: string
  Scope :: string

datatype ChannelCredentials = SslCredentials

text \<open>A \<^verbatim>\<open>GrpcService\<close> whose target is \<^verbatim>\<open>GoogleGrpc\<close>, the only one the code builds.\<close>

record GrpcService =
  InitialMetadata :: "(string \<times> string) list"
  TargetUri :: string
  StatPrefix :: string
  ChannelCredentials :: ChannelCredentials
  CallCredentials :: "StsService list"

record OpenCensusConfig =
  OcagentAddress :: string
  OcagentExporterEnabled :: bool
  StackdriverExporterEnabled :: bool
  StackdriverProjectId :: string
  StackdriverGrpcService :: "GrpcService option"
  StdoutExporterEnabled :: bool
  IncomingTraceContext :: "OpenCensusConfig_TraceContext list"
  OutgoingTraceContext :: "OpenCensusConfig_TraceContext list"
  TraceConfig :: "TraceConfig option"

datatype CollectorEndpointVersion = ZipkinConfig_HTTP_JSON

record ZipkinConfig =
  zipkin_CollectorCluster :: string
  CollectorEndpoint :: string
  CollectorEndpointVersion :: CollectorEndpointVersion
  TraceId_128Bit :: bool
  SharedSpanContext :: "bool option"

record LightstepConfig =
  lightstep_CollectorCluster :: string
  AccessTokenFile :: string

record DatadogConfig =
  datadog_CollectorCluster :: string

text \<open>The message packed by \<^verbatim>\<open>anypb.New\<close>; packing a well-formed message succeeds.\<close>

datatype TypedConfig =
    Any_Zipkin ZipkinConfig
  | Any_Datadog DatadogConfig
  | Any_Lightstep LightstepConfig
  | Any_OpenCensus OpenCensusConfig

record Tracing_Http =
  Name :: string
  TypedConfig :: TypedConfig

text \<open>A \<^verbatim>\<open>*xdstype.Percent\<close> is its value or \<open>None\<close> when the pointer is nil.\<close>

record HCM_Tracing =
  ClientSampling :: "float64 option"
  RandomSampling :: "float64 option"
  OverallSampling :: "float64 option"
  CustomTags :: "CustomTag list"
  MaxPathTagLength :: "32 word option"
  Provider :: "Tracing_Http option"

text \<open>\<^verbatim>\<open>&hpb.HttpConnectionManager_Tracing{}\<close>: every field at its zero value.\<close>

definition empty_Tracing :: HCM_Tracing where
  "empty_Tracing =
     \<lparr>ClientSampling = None, RandomSampling = None, OverallSampling = None,
      CustomTags = [], MaxPathTagLength = None, Provider = None\<rparr>"

record HttpConnectionManager =
  Tracing :: "HCM_Tracing option"

subsection \<open>Inputs: proxy configuration, telemetry directive, mesh configuration\<close>

text \<open>The \<^verbatim>\<open>Type\<close> oneof of a custom tag of the proxy configuration; the Go type switch
  has no case for an unset oneof.\<close>

datatype meshconfig_CustomTag =
    meshconfig_Environment string string
  | meshconfig_Header string string
  | meshconfig_Literal string
  | meshconfig_Type_unset

datatype telemetry_CustomTag =
    telemetry_Environment string string
  | telemetry_Header string string
  | telemetry_Literal string
  | telemetry_Type_unset

text \<open>A Go map is an association list with distinct keys; the order of the list is the
  order in which \<^verbatim>\<open>range\<close> happens to visit the entries. The messages held in
  lists, maps and oneofs are present (no nil element), as decoded protobuf messages are;
  a pointer the code tests or reads through a nil-safe getter is an \<open>option\<close>.\<close>

record meshconfig_Tracing =
  Sampling :: float64
  proxy_CustomTags :: "(string \<times> meshconfig_CustomTag) list"
  proxy_MaxPathTagLength :: "32 word"

record ProxyConfig =
  proxy_Tracing :: "meshconfig_Tracing option"

text \<open>The nil-safe getters of the generated protobuf code.\<close>

definition GetCustomTags :: "meshconfig_Tracing option \<Rightarrow> (string \<times> meshconfig_CustomTag) list" where
  "GetCustomTags t = (case t of None \<Rightarrow> [] | Some x \<Rightarrow> proxy_CustomTags x)"

definition GetMaxPathTagLength :: "meshconfig_Tracing option \<Rightarrow> 32 word" where
  "GetMaxPathTagLength t = (case t of None \<Rightarrow> 0 | Some x \<Rightarrow> proxy_MaxPathTagLength x)"

definition GetSampling :: "meshconfig_Tracing option \<Rightarrow> float64" where
  "GetSampling t = (case t of None \<Rightarrow> Finite 0 | Some x \<Rightarrow> Sampling x)"

record ProviderRef =
  ref_Name :: string

record telemetry_Tracing =
  Providers :: "ProviderRef list"
  RandomSamplingPercentage :: float64
  DisableSpanReporting :: bool
  spec_CustomTags :: "(string \<times> telemetry_CustomTag) list"

record Telemetry =
  spec_Tracing :: "telemetry_Tracing list"

definition GetTracing :: "Telemetry option \<Rightarrow> telemetry_Tracing list" where
  "GetTracing spec = (case spec of None \<Rightarrow> [] | Some s \<Rightarrow> spec_Tracing s)"

datatype OpenCensusAgent_TraceContext =
    OpenCensusAgent_B3
  | OpenCensusAgent_CLOUD_TRACE_CONTEXT
  | OpenCensusAgent_GRPC_BIN
  | OpenCensusAgent_W3C_TRACE_CONTEXT
  | OpenCensusAgent_unlisted

text \<open>\<open>OpenCensusAgent_unlisted\<close> stands for every value of the Go enum (an
  \<^verbatim>\<open>int32\<close>) that the switch of \<^verbatim>\<open>convert\<close> does not list.\<close>

record ZipkinTracingProvider =
  zipkin_Service :: string
  zipkin_Port :: "32 word"
  zipkin_MaxTagLength :: "32 word"

record DatadogTracingProvider =
  datadog_Service :: string
  datadog_Port :: "32 word"
  datadog_MaxTagLength :: "32 word"

record LightstepTracingProvider =
  lightstep_Service :: string
  lightstep_Port :: "32 word"
  AccessToken :: string
  lightstep_MaxTagLength :: "32 word"

record OpenCensusAgentTracingProvider =
  opencensus_Service :: string
  opencensus_Port :: "32 word"
  Context :: "OpenCensusAgent_TraceContext list"
  opencensus_MaxTagLength :: "32 word"

record StackdriverProvider =
  Debug :: bool
  sd_MaxNumberOfAttributes :: "64 word option"
  sd_MaxNumberOfAnnotations :: "64 word option"
  sd_MaxNumberOfMessageEvents :: "64 word option"
  stackdriver_MaxTagLength :: "32 word"

text \<open>The \<^verbatim>\<open>Provider\<close> oneof of an extension provider. \<open>Provider_other\<close> stands for
  an unset oneof and for every kind the type switch of
  \<^verbatim>\<open>configureFromProviderConfig\<close> has no case for.\<close>

datatype Provider_oneof =
    Provider_Zipkin ZipkinTracingProvider
  | Provider_Datadog DatadogTracingProvider
  | Provider_Lightstep LightstepTracingProvider
  | Provider_Opencensus OpenCensusAgentTracingProvider
  | Provider_Stackdriver StackdriverProvider
  | Provider_other

record ExtensionProvider =
  ext_Name :: string
  ext_Provider :: Provider_oneof

record DefaultProviders =
  default_Tracing :: string

record MeshConfig =
  EnableTracing :: bool
  DefaultProviders :: "DefaultProviders option"
  ExtensionProviders :: "ExtensionProvider list"
  DefaultConfig :: ProxyConfig

definition GetDefaultTracing :: "DefaultProviders option \<Rightarrow> string" where
  "GetDefaultTracing d = (case d of None \<Rightarrow> [] | Some x \<Rightarrow> default_Tracing x)"

record NodeMetadata =
  PlatformMetadata :: "string \<rightharpoonup> string"
  StsPort :: string
  meta_ProxyConfig :: "ProxyConfig option"

record Proxy =
  Metadata :: NodeMetadata

record PushContext =
  Mesh :: MeshConfig

record buildListenerOpts =
  push :: PushContext
  proxy :: Proxy

text \<open>What the code takes from outside this file: the cluster lookup (the result is the
  cluster name, or the error of the lookup), the two settings of package
  \<^verbatim>\<open>features\<close>, and \<^verbatim>\<open>strings.EqualFold\<close> of Go's standard library, equality under
  Unicode simple case folding. The folding tables of Unicode are no part of the source,
  so the function is a parameter, and what is proved holds whatever it decides.\<close>

record globals =
  clusterLookupFn :: "PushContext \<Rightarrow> string \<Rightarrow> int \<Rightarrow> string + string"
  TraceSampling :: float64
  EnableIstioTags :: bool
  EqualFold :: "string \<Rightarrow> string \<Rightarrow> bool"

text \<open>Modelled from the spec: the constants \<^verbatim>\<open>platform.GCPProject\<close> and
  \<^verbatim>\<open>platform.GCPProjectNumber\<close> are declared in another package of the repository; the spec
  names the keys "project" and "project-number".\<close>

definition GCPProject :: string where
  "GCPProject = ''project''"

definition GCPProjectNumber :: string where
  "GCPProjectNumber = ''project-number''"

text \<open>Modelled from the spec: \<^verbatim>\<open>ProxyConfigOrDefault\<close> is a method of the node metadata
  declared in another package of the repository; the proxy configuration is the workload's own when
  it has one and the mesh default otherwise, so it is always present.\<close>

definition ProxyConfigOrDefault :: "NodeMetadata \<Rightarrow> ProxyConfig \<Rightarrow> ProxyConfig" where
  "ProxyConfigOrDefault m def = (case meta_ProxyConfig m of Some c \<Rightarrow> c | None \<Rightarrow> def)"

subsection \<open>Sampling\<close>

definition getPilotRandomSamplingEnv :: "globals \<Rightarrow> float64" where
  "getPilotRandomSamplingEnv g =
     (let f = TraceSampling g
      in if float_lt f (Finite 0) \<or> float_gt f (Finite 100) then Finite 1 else f)"

text \<open>Modelled from the spec: the package variable \<^verbatim>\<open>pilotTraceSamplingEnv\<close> is
  declared in another file of the package; the spec describes it as the process-wide default,
  validated to lie in \<open>[0,100]\<close> and else forced to \<open>1.0\<close>, which is what
  \<^verbatim>\<open>getPilotRandomSamplingEnv\<close> returns.\<close>

definition pilotTraceSamplingEnv :: "globals \<Rightarrow> float64" where
  "pilotTraceSamplingEnv g = getPilotRandomSamplingEnv g"

definition fallbackSamplingValue :: "globals \<Rightarrow> ProxyConfig \<Rightarrow> float64" where
  "fallbackSamplingValue g config =
     (let sampling = pilotTraceSamplingEnv g
      in case proxy_Tracing config of
           None \<Rightarrow> sampling
         | Some t \<Rightarrow>
             if float_ne (Sampling t) (Finite 0)
             then (let sampling = Sampling t
                   in if float_gt sampling (Finite 100) then Finite 1 else sampling)
             else sampling)"

definition configureSampling :: "globals \<Rightarrow> HCM_Tracing \<Rightarrow> float64 \<Rightarrow> ProxyConfig \<Rightarrow> HCM_Tracing" where
  "configureSampling g hcmTracing providerPercentage proxyCfg =
     (let t = hcmTracing\<lparr>ClientSampling := Some (Finite 100)\<rparr>;
          t = t\<lparr>OverallSampling := Some (Finite 100)\<rparr>
      in if float_ne providerPercentage (Finite 0)
         then t\<lparr>RandomSampling := Some providerPercentage\<rparr>
         else t\<lparr>RandomSampling := Some (fallbackSamplingValue g proxyCfg)\<rparr>)"

subsection \<open>Custom tags\<close>

definition defaultTags :: "CustomTag list" where
  "defaultTags =
     [\<lparr>Tag = ''istio.canonical_revision'',
       Type = CustomTag_Environment ''CANONICAL_REVISION'' ''latest''\<rparr>,
      \<lparr>Tag = ''istio.canonical_service'',
       Type = CustomTag_Environment ''CANONICAL_SERVICE'' ''unknown''\<rparr>,
      \<lparr>Tag = ''istio.mesh_id'',
       Type = CustomTag_Environment ''ISTIO_META_MESH_ID'' ''unknown''\<rparr>,
      \<lparr>Tag = ''istio.namespace'',
       Type = CustomTag_Environment ''POD_NAMESPACE'' ''default''\<rparr>]"

text \<open>The two loops over a map: the entries are visited in the order of the list, and
  an entry whose oneof is unset appends nothing.\<close>

fun buildCustomTagsFromProvider :: "(string \<times> telemetry_CustomTag) list \<Rightarrow> CustomTag list" where
  "buildCustomTagsFromProvider [] = []"
| "buildCustomTagsFromProvider ((tagName, tagInfo) # providerTags) =
     (case tagInfo of
        telemetry_Environment n d \<Rightarrow> [\<lparr>Tag = tagName, Type = CustomTag_Environment n d\<rparr>]
      | telemetry_Header n d \<Rightarrow> [\<lparr>Tag = tagName, Type = CustomTag_RequestHeader n d\<rparr>]
      | telemetry_Literal v \<Rightarrow> [\<lparr>Tag = tagName, Type = CustomTag_Literal v\<rparr>]
      | telemetry_Type_unset \<Rightarrow> [])
     @ buildCustomTagsFromProvider providerTags"

fun buildCustomTagsFromProxyConfig :: "(string \<times> meshconfig_CustomTag) list \<Rightarrow> CustomTag list" where
  "buildCustomTagsFromProxyConfig [] = []"
| "buildCustomTagsFromProxyConfig ((tagName, tagInfo) # customTags) =
     (case tagInfo of
        meshconfig_Environment n d \<Rightarrow> [\<lparr>Tag = tagName, Type = CustomTag_Environment n d\<rparr>]
      | meshconfig_Header n d \<Rightarrow> [\<lparr>Tag = tagName, Type = CustomTag_RequestHeader n d\<rparr>]
      | meshconfig_Literal v \<Rightarrow> [\<lparr>Tag = tagName, Type = CustomTag_Literal v\<rparr>]
      | meshconfig_Type_unset \<Rightarrow> [])
     @ buildCustomTagsFromProxyConfig customTags"

text \<open>\<^verbatim>\<open>sort.Slice\<close> with the comparison \<^verbatim>\<open>tags[i].Tag < tags[j].Tag\<close> (Go compares
  strings byte by byte). The standard library promises a permutation in which no element
  is less than one before it, and no more: elements with equal tag names may come in any
  order. \<open>sort_Slice_post\<close> is that promise, \<open>sort_Slice\<close> one function that keeps it
  (insertion by tag name).\<close>

definition sort_Slice_post :: "CustomTag list \<Rightarrow> CustomTag list \<Rightarrow> bool" where
  "sort_Slice_post tags out = (mset out = mset tags \<and> sorted_wrt (\<lambda>a b. \<not> Tag b < Tag a) out)"

definition sort_Slice :: "CustomTag list \<Rightarrow> CustomTag list" where
  "sort_Slice tags = sort_key Tag tags"

definition configureCustomTags ::
  "globals \<Rightarrow> HCM_Tracing \<Rightarrow> (string \<times> telemetry_CustomTag) list \<Rightarrow> ProxyConfig \<Rightarrow> HCM_Tracing" where
  "configureCustomTags g hcmTracing providerTags proxyCfg =
     (let tags = (if EnableIstioTags g then defaultTags else []);
          tags = (if length providerTags = 0
                  then tags @ buildCustomTagsFromProxyConfig (GetCustomTags (proxy_Tracing proxyCfg))
                  else tags @ buildCustomTagsFromProvider providerTags)
      in hcmTracing\<lparr>CustomTags := sort_Slice tags\<rparr>)"

text \<open>The tag names of the map that \<^verbatim>\<open>configureCustomTags\<close> reads: the directive's
  when it has an entry, the legacy one otherwise.\<close>

definition usedTagNames :: "(string \<times> telemetry_CustomTag) list \<Rightarrow> ProxyConfig \<Rightarrow> string list" where
  "usedTagNames providerTags proxyCfg =
     (if length providerTags = 0 then map fst (GetCustomTags (proxy_Tracing proxyCfg))
      else map fst providerTags)"

subsection \<open>Backend builders\<close>

datatype config_error = UnknownProjectId | BadStsPort "strconv_error option"

datatype error =
    CouldNotFindCluster string string
  | CouldNotConfigure string config_error

definition zipkinConfigGen :: "string \<Rightarrow> config_error + TypedConfig" where
  "zipkinConfigGen cluster =
     Inr (Any_Zipkin
       \<lparr>zipkin_CollectorCluster = cluster, CollectorEndpoint = ''/api/v2/spans'',
        CollectorEndpointVersion = ZipkinConfig_HTTP_JSON, TraceId_128Bit = True,
        SharedSpanContext = Some False\<rparr>)"

definition datadogConfigGen :: "string \<Rightarrow> config_error + TypedConfig" where
  "datadogConfigGen cluster = Inr (Any_Datadog \<lparr>datadog_CollectorCluster = cluster\<rparr>)"

definition lightstepConfigGen :: "LightstepTracingProvider \<Rightarrow> string \<Rightarrow> config_error + TypedConfig" where
  "lightstepConfigGen provider clusterName =
     Inr (Any_Lightstep
       \<lparr>lightstep_CollectorCluster = clusterName, AccessTokenFile = AccessToken provider\<rparr>)"

text \<open>Both builders return the pair of Go: the block and the error (\<open>None\<close> for nil).\<close>

definition buildHCMTracing ::
  "globals \<Rightarrow> PushContext \<Rightarrow> string \<Rightarrow> string \<Rightarrow> 32 word \<Rightarrow> 32 word \<Rightarrow>
   (string \<Rightarrow> config_error + TypedConfig) \<Rightarrow> HCM_Tracing \<times> error option" where
  "buildHCMTracing g pushCtx provider svc port maxTagLen anyFn =
     (let config = empty_Tracing
      in case clusterLookupFn g pushCtx svc (uint port) of
           Inl err \<Rightarrow> (config, Some (CouldNotFindCluster provider err))
         | Inr cluster \<Rightarrow>
             (case anyFn cluster of
                Inl err \<Rightarrow> (config, Some (CouldNotConfigure provider err))
              | Inr any \<Rightarrow>
                  (let config = config\<lparr>Provider := Some \<lparr>Name = provider, TypedConfig = any\<rparr>\<rparr>;
                       config = (if maxTagLen \<noteq> 0
                                 then config\<lparr>MaxPathTagLength := Some maxTagLen\<rparr> else config)
                   in (config, None))))"

definition buildHCMTracingOpenCensus ::
  "string \<Rightarrow> 32 word \<Rightarrow> (config_error + TypedConfig) \<Rightarrow> HCM_Tracing \<times> error option" where
  "buildHCMTracingOpenCensus provider maxTagLen anyFn =
     (let config = empty_Tracing
      in case anyFn of
           Inl err \<Rightarrow> (config, Some (CouldNotConfigure provider err))
         | Inr any \<Rightarrow>
             (let config = config\<lparr>Provider := Some \<lparr>Name = provider, TypedConfig = any\<rparr>\<rparr>;
                  config = (if maxTagLen \<noteq> 0
                            then config\<lparr>MaxPathTagLength := Some maxTagLen\<rparr> else config)
              in (config, None)))"

definition allContexts :: "OpenCensusConfig_TraceContext list" where
  "allContexts =
     [OpenCensusConfig_B3, OpenCensusConfig_CLOUD_TRACE_CONTEXT,
      OpenCensusConfig_GRPC_TRACE_BIN, OpenCensusConfig_TRACE_CONTEXT]"

definition convert :: "OpenCensusAgent_TraceContext list \<Rightarrow> OpenCensusConfig_TraceContext list" where
  "convert ctxs =
     (if length ctxs = 0 then allContexts
      else foldl (\<lambda>converted c.
             case c of
               OpenCensusAgent_B3 \<Rightarrow> converted @ [OpenCensusConfig_B3]
             | OpenCensusAgent_CLOUD_TRACE_CONTEXT \<Rightarrow> converted @ [OpenCensusConfig_CLOUD_TRACE_CONTEXT]
             | OpenCensusAgent_GRPC_BIN \<Rightarrow> converted @ [OpenCensusConfig_GRPC_TRACE_BIN]
             | OpenCensusAgent_W3C_TRACE_CONTEXT \<Rightarrow> converted @ [OpenCensusConfig_TRACE_CONTEXT]
             | OpenCensusAgent_unlisted \<Rightarrow> converted) [] ctxs)"

text \<open>The output format that corresponds to a configured format; a value that
  \<^verbatim>\<open>convert\<close> does not list has none.\<close>

definition format_of :: "OpenCensusAgent_TraceContext \<Rightarrow> OpenCensusConfig_TraceContext option" where
  "format_of c =
     (case c of
        OpenCensusAgent_B3 \<Rightarrow> Some OpenCensusConfig_B3
      | OpenCensusAgent_CLOUD_TRACE_CONTEXT \<Rightarrow> Some OpenCensusConfig_CLOUD_TRACE_CONTEXT
      | OpenCensusAgent_GRPC_BIN \<Rightarrow> Some OpenCensusConfig_GRPC_TRACE_BIN
      | OpenCensusAgent_W3C_TRACE_CONTEXT \<Rightarrow> Some OpenCensusConfig_TRACE_CONTEXT
      | OpenCensusAgent_unlisted \<Rightarrow> None)"

text \<open>\<^verbatim>\<open>&tracingcfg.OpenCensusConfig{}\<close>: every field at its zero value.\<close>

definition empty_OpenCensusConfig :: OpenCensusConfig where
  "empty_OpenCensusConfig =
     \<lparr>OcagentAddress = [], OcagentExporterEnabled = False, StackdriverExporterEnabled = False,
      StackdriverProjectId = [], StackdriverGrpcService = None, StdoutExporterEnabled = False,
      IncomingTraceContext = [], OutgoingTraceContext = [], TraceConfig = None\<rparr>"

definition opencensusConfigGen :: "OpenCensusAgentTracingProvider \<Rightarrow> config_error + TypedConfig" where
  "opencensusConfigGen provider =
     Inr (Any_OpenCensus (empty_OpenCensusConfig
       \<lparr>OcagentAddress := opencensus_Service provider @ '':'' @ itoa (uint (opencensus_Port provider)),
        OcagentExporterEnabled := True,
        IncomingTraceContext := convert (Context provider),
        OutgoingTraceContext := convert (Context provider)\<rparr>))"

definition stsGrpcService :: "string \<Rightarrow> int \<Rightarrow> GrpcService" where
  "stsGrpcService proj stsPort =
     \<lparr>InitialMetadata = [(''x-goog-user-project'', proj)],
      TargetUri = ''cloudtrace.googleapis.com'',
      StatPrefix = ''oc_stackdriver_tracer'',
      ChannelCredentials = SslCredentials,
      CallCredentials =
        [\<lparr>TokenExchangeServiceUri = ''http://localhost:'' @ itoa stsPort @ ''/token'',
          SubjectTokenPath = ''/var/run/secrets/tokens/istio-token'',
          SubjectTokenType = ''urn:ietf:params:oauth:token-type:jwt'',
          Scope = ''https://www.googleapis.com/auth/cloud-platform''\<rparr>]\<rparr>"

text \<open>The three optional overrides of the trace limits, in the order of the source.\<close>

definition overrideTraceConfig :: "StackdriverProvider \<Rightarrow> TraceConfig \<Rightarrow> TraceConfig" where
  "overrideTraceConfig provider tc =
     (let tc = (case sd_MaxNumberOfAnnotations provider of
                  None \<Rightarrow> tc | Some v \<Rightarrow> tc\<lparr>MaxNumberOfAnnotations := v\<rparr>);
          tc = (case sd_MaxNumberOfAttributes provider of
                  None \<Rightarrow> tc | Some v \<Rightarrow> tc\<lparr>MaxNumberOfAttributes := v\<rparr>);
          tc = (case sd_MaxNumberOfMessageEvents provider of
                  None \<Rightarrow> tc | Some v \<Rightarrow> tc\<lparr>MaxNumberOfMessageEvents := v\<rparr>)
      in tc)"

definition stackdriverConfigGen :: "NodeMetadata \<Rightarrow> StackdriverProvider \<Rightarrow> config_error + TypedConfig" where
  "stackdriverConfigGen meta provider =
     (let found = (case PlatformMetadata meta GCPProject of
                     Some proj \<Rightarrow> Some proj
                   | None \<Rightarrow> PlatformMetadata meta GCPProjectNumber)
      in case found of
           None \<Rightarrow> Inl UnknownProjectId
         | Some proj \<Rightarrow>
             (let sd = empty_OpenCensusConfig
                    \<lparr>StackdriverExporterEnabled := True,
                     StackdriverProjectId := proj,
                     IncomingTraceContext := allContexts,
                     OutgoingTraceContext := allContexts,
                     StdoutExporterEnabled := Debug provider,
                     TraceConfig := Some \<lparr>MaxNumberOfAnnotations = 200, MaxNumberOfAttributes = 200,
                                          MaxNumberOfMessageEvents = 200\<rparr>\<rparr>;
                  wired = (if StsPort meta \<noteq> []
                           then (case Atoi (StsPort meta) of
                                   Inl err \<Rightarrow> Inl (BadStsPort (Some err))
                                 | Inr stsPort \<Rightarrow>
                                     if stsPort < 1 then Inl (BadStsPort None)
                                     else Inr (sd\<lparr>StackdriverGrpcService :=
                                                  Some (stsGrpcService proj stsPort)\<rparr>))
                           else Inr sd)
              in case wired of
                   Inl err \<Rightarrow> Inl err
                 | Inr sd \<Rightarrow>
                     Inr (Any_OpenCensus
                       (sd\<lparr>TraceConfig := map_option (overrideTraceConfig provider) (TraceConfig sd)\<rparr>))))"

definition configureFromProviderConfig ::
  "globals \<Rightarrow> PushContext \<Rightarrow> NodeMetadata \<Rightarrow> ExtensionProvider \<Rightarrow> HCM_Tracing \<times> error option" where
  "configureFromProviderConfig g pushCtx meta providerCfg =
     (case ext_Provider providerCfg of
        Provider_Zipkin provider \<Rightarrow>
          buildHCMTracing g pushCtx (ext_Name providerCfg) (zipkin_Service provider)
            (zipkin_Port provider) (zipkin_MaxTagLength provider) zipkinConfigGen
      | Provider_Datadog provider \<Rightarrow>
          buildHCMTracing g pushCtx (ext_Name providerCfg) (datadog_Service provider)
            (datadog_Port provider) (datadog_MaxTagLength provider) datadogConfigGen
      | Provider_Lightstep provider \<Rightarrow>
          buildHCMTracing g pushCtx (ext_Name providerCfg) (lightstep_Service provider)
            (lightstep_Port provider) (lightstep_MaxTagLength provider) (lightstepConfigGen provider)
      | Provider_Opencensus provider \<Rightarrow>
          buildHCMTracingOpenCensus (ext_Name providerCfg) (opencensus_MaxTagLength provider)
            (opencensusConfigGen provider)
      | Provider_Stackdriver provider \<Rightarrow>
          buildHCMTracingOpenCensus (ext_Name providerCfg) (stackdriver_MaxTagLength provider)
            (stackdriverConfigGen meta provider)
      | Provider_other \<Rightarrow> (empty_Tracing, None))"

subsection \<open>The orchestrator\<close>

text \<open>The loop over the extension providers: \<open>Some tcfg\<close> when a provider was configured
  (\<^verbatim>\<open>providerConfigured\<close> is true and \<^verbatim>\<open>hcm.Tracing\<close> is \<open>tcfg\<close>), \<open>None\<close> when the
  loop ends without one. A failed build is logged and the loop goes on.\<close>

fun providerLoop ::
  "globals \<Rightarrow> buildListenerOpts \<Rightarrow> string \<Rightarrow> ExtensionProvider list \<Rightarrow> HCM_Tracing option" where
  "providerLoop g opts providerName [] = None"
| "providerLoop g opts providerName (p # ps) =
     (if EqualFold g (ext_Name p) providerName
      then (case configureFromProviderConfig g (push opts) (Metadata (proxy opts)) p of
              (tcfg, None) \<Rightarrow> Some tcfg
            | (tcfg, Some err) \<Rightarrow> providerLoop g opts providerName ps)
      else providerLoop g opts providerName ps)"

definition configureTracingFromSpec ::
  "globals \<Rightarrow> Telemetry option \<Rightarrow> buildListenerOpts \<Rightarrow> HttpConnectionManager \<Rightarrow> HttpConnectionManager" where
  "configureTracingFromSpec g spec opts hcm =
     (let meshCfg = Mesh (push opts);
          proxyCfg = ProxyConfigOrDefault (Metadata (proxy opts)) (DefaultConfig (Mesh (push opts)))
      in case GetTracing spec of
           [] \<Rightarrow>
             if \<not> EnableTracing meshCfg then hcm
             else (let t = empty_Tracing;
                       t = configureSampling g t (Finite 0) proxyCfg;
                       t = configureCustomTags g t [] proxyCfg;
                       t = (if GetMaxPathTagLength (proxy_Tracing proxyCfg) \<noteq> 0
                            then t\<lparr>MaxPathTagLength := Some (GetMaxPathTagLength (proxy_Tracing proxyCfg))\<rparr>
                            else t)
                   in hcm\<lparr>Tracing := Some t\<rparr>)
         | tracingCfg # others \<Rightarrow>
             if DisableSpanReporting tracingCfg then hcm
             else (let providerName = (case Providers tracingCfg of
                                         [] \<Rightarrow> GetDefaultTracing (DefaultProviders meshCfg)
                                       | r # rs \<Rightarrow> ref_Name r);
                       t = (case providerLoop g opts providerName (ExtensionProviders meshCfg) of
                              Some tcfg \<Rightarrow> tcfg
                            | None \<Rightarrow> empty_Tracing);
                       t = configureSampling g t (RandomSamplingPercentage tracingCfg) proxyCfg;
                       t = configureCustomTags g t (spec_CustomTags tracingCfg) proxyCfg;
                       t = (if MaxPathTagLength t = None
                               \<and> GetMaxPathTagLength (proxy_Tracing proxyCfg) \<noteq> 0
                            then t\<lparr>MaxPathTagLength := Some (GetMaxPathTagLength (proxy_Tracing proxyCfg))\<rparr>
                            else t)
                   in hcm\<lparr>Tracing := Some t\<rparr>))"

subsection \<open>Concrete configurations\<close>

text \<open>A mesh with one Zipkin provider whose cluster is known, a workload with a legacy
  proxy configuration, and a directive with one tracing spec.\<close>

definition example_globals :: globals where
  "example_globals =
     \<lparr>clusterLookupFn = (\<lambda>pushCtx svc port.
         if svc = ''zipkin.istio-system'' then Inr ''outbound|9411||zipkin.istio-system''
         else Inl ''cluster not found''),
      TraceSampling = Finite 1, EnableIstioTags = True, EqualFold = EqualFold_ASCII\<rparr>"

definition example_proxyCfg :: ProxyConfig where
  "example_proxyCfg =
     \<lparr>proxy_Tracing = Some \<lparr>Sampling = Finite 50,
        proxy_CustomTags = [(''legacy'', meshconfig_Literal ''v'')],
        proxy_MaxPathTagLength = 0\<rparr>\<rparr>"

definition example_meta :: NodeMetadata where
  "example_meta =
     \<lparr>PlatformMetadata = [GCPProjectNumber \<mapsto> ''1234567''], StsPort = ''15463'',
      meta_ProxyConfig = Some example_proxyCfg\<rparr>"

definition example_zipkin :: ExtensionProvider where
  "example_zipkin =
     \<lparr>ext_Name = ''Zipkin'',
      ext_Provider = Provider_Zipkin
        \<lparr>zipkin_Service = ''zipkin.istio-system'', zipkin_Port = 9411, zipkin_MaxTagLength = 256\<rparr>\<rparr>"

definition example_mesh :: MeshConfig where
  "example_mesh =
     \<lparr>EnableTracing = True, DefaultProviders = Some \<lparr>default_Tracing = ''zipkin''\<rparr>,
      ExtensionProviders = [example_zipkin], DefaultConfig = \<lparr>proxy_Tracing = None\<rparr>\<rparr>"

definition example_opts :: buildListenerOpts where
  "example_opts = \<lparr>push = \<lparr>Mesh = example_mesh\<rparr>, proxy = \<lparr>Metadata = example_meta\<rparr>\<rparr>"

definition example_tracingCfg :: telemetry_Tracing where
  "example_tracingCfg =
     \<lparr>Providers = [], RandomSamplingPercentage = Finite 0, DisableSpanReporting = False,
      spec_CustomTags = [(''env'', telemetry_Environment ''ENV'' ''dev'')]\<rparr>"

definition example_spec :: Telemetry where
  "example_spec = \<lparr>spec_Tracing = [example_tracingCfg]\<rparr>"


definition example_tags :: "(string \<times> telemetry_CustomTag) list" where
  "example_tags = [(''user'', telemetry_Header ''x-user'' ''none''), (''env'', telemetry_Environment ''ENV'' ''dev'')]"

definition example_opencensus_provider :: OpenCensusAgentTracingProvider where
  "example_opencensus_provider =
     \<lparr>opencensus_Service = ''oc-agent.istio-system'', opencensus_Port = 55678,
      Context = [OpenCensusAgent_W3C_TRACE_CONTEXT, OpenCensusAgent_B3],
      opencensus_MaxTagLength = 0\<rparr>"

definition example_opencensus :: ExtensionProvider where
  "example_opencensus =
     \<lparr>ext_Name = ''oc'', ext_Provider = Provider_Opencensus example_opencensus_provider\<rparr>"

definition example_stackdriver_provider :: StackdriverProvider where
  "example_stackdriver_provider =
     \<lparr>Debug = False, sd_MaxNumberOfAttributes = None, sd_MaxNumberOfAnnotations = Some 32,
      sd_MaxNumberOfMessageEvents = None, stackdriver_MaxTagLength = 0\<rparr>"

definition example_stackdriver :: ExtensionProvider where
  "example_stackdriver =
     \<lparr>ext_Name = ''sd'', ext_Provider = Provider_Stackdriver example_stackdriver_provider\<rparr>"

text \<open>A provider of a kind that is no tracing backend, a Zipkin provider whose cluster
  is unknown, and listener options over a given list of extension providers.\<close>

definition example_unknown :: ExtensionProvider where
  "example_unknown = \<lparr>ext_Name = ''ZIPKIN'', ext_Provider = Provider_other\<rparr>"

definition example_zipkin_unresolvable :: ExtensionProvider where
  "example_zipkin_unresolvable =
     \<lparr>ext_Name = ''zipkin'',
      ext_Provider = Provider_Zipkin
        \<lparr>zipkin_Service = ''missing.istio-system'', zipkin_Port = 9411, zipkin_MaxTagLength = 0\<rparr>\<rparr>"

definition example_opts_with :: "ExtensionProvider list \<Rightarrow> buildListenerOpts" where
  "example_opts_with ps =
     \<lparr>push = \<lparr>Mesh = example_mesh\<lparr>ExtensionProviders := ps\<rparr>\<rparr>, proxy = \<lparr>Metadata = example_meta\<rparr>\<rparr>"

section \<open>Properties\<close>

subsection \<open>Sampling\<close>

lemma ClientSampling_configureSampling:
  "ClientSampling (configureSampling g t p cfg) = Some (Finite 100)"
  by (simp add: configureSampling_def Let_def)

lemma OverallSampling_configureSampling:
  "OverallSampling (configureSampling g t p cfg) = Some (Finite 100)"
  by (simp add: configureSampling_def Let_def)

lemma RandomSampling_configureSampling:
  "RandomSampling (configureSampling g t p cfg) =
     Some (if float_ne p (Finite 0) then p else fallbackSamplingValue g cfg)"
  by (simp add: configureSampling_def Let_def)

lemma ClientSampling_configureCustomTags [simp]:
  "ClientSampling (configureCustomTags g t tags cfg) = ClientSampling t"
  by (simp add: configureCustomTags_def Let_def)

lemma OverallSampling_configureCustomTags [simp]:
  "OverallSampling (configureCustomTags g t tags cfg) = OverallSampling t"
  by (simp add: configureCustomTags_def Let_def)

lemma RandomSampling_configureCustomTags [simp]:
  "RandomSampling (configureCustomTags g t tags cfg) = RandomSampling t"
  by (simp add: configureCustomTags_def Let_def)

lemma Provider_configureCustomTags [simp]:
  "Provider (configureCustomTags g t tags cfg) = Provider t"
  by (simp add: configureCustomTags_def Let_def)

lemma MaxPathTagLength_configureCustomTags [simp]:
  "MaxPathTagLength (configureCustomTags g t tags cfg) = MaxPathTagLength t"
  by (simp add: configureCustomTags_def Let_def)

lemma Provider_configureSampling [simp]:
  "Provider (configureSampling g t p cfg) = Provider t"
  by (simp add: configureSampling_def Let_def)

lemma MaxPathTagLength_configureSampling [simp]:
  "MaxPathTagLength (configureSampling g t p cfg) = MaxPathTagLength t"
  by (simp add: configureSampling_def Let_def)

lemma configureTracingFromSpec_sampling:
  assumes "Tracing (configureTracingFromSpec g spec opts hcm) = Some t'" and "Tracing hcm = None"
  shows "ClientSampling t' = Some (Finite 100) \<and> OverallSampling t' = Some (Finite 100)"
proof (cases "GetTracing spec")
  case Nil
  with assms show ?thesis
    by (cases "EnableTracing (Mesh (push opts))")
       (auto simp: configureTracingFromSpec_def Let_def ClientSampling_configureSampling
          OverallSampling_configureSampling)
next
  case (Cons tc others)
  with assms show ?thesis
    by (cases "DisableSpanReporting tc")
       (auto simp: configureTracingFromSpec_def Let_def ClientSampling_configureSampling
          OverallSampling_configureSampling)
qed


text \<open>
  Claim C7. The client-sampling and the overall-sampling percentage are both \<open>100.0\<close>:
  \<^verbatim>\<open>configureSampling\<close> sets them so for every block, provider percentage and proxy
  configuration, and every block that \<^verbatim>\<open>configureTracingFromSpec\<close> writes into a
  connection manager carries them, whatever the directive, the mesh and the proxy
  configuration are. (When no block is written there is no percentage to speak of.)
\<close>

theorem sampling_client_overall_fixed:
  "ClientSampling (configureSampling g t p cfg) = Some (Finite 100)
   \<and> OverallSampling (configureSampling g t p cfg) = Some (Finite 100)
   \<and> (\<forall>t'. Tracing (configureTracingFromSpec g spec opts \<lparr>Tracing = None\<rparr>) = Some t'
         \<longrightarrow> ClientSampling t' = Some (Finite 100) \<and> OverallSampling t' = Some (Finite 100))"
proof -
  have "\<forall>t'. Tracing (configureTracingFromSpec g spec opts \<lparr>Tracing = None\<rparr>) = Some t'
         \<longrightarrow> ClientSampling t' = Some (Finite 100) \<and> OverallSampling t' = Some (Finite 100)"
    using configureTracingFromSpec_sampling [of g spec opts "\<lparr>Tracing = None\<rparr>"]
    by simp
  then show ?thesis
    by (simp add: ClientSampling_configureSampling OverallSampling_configureSampling)
qed

theorem sampling_client_overall_fixed_witness:
  "map_option ClientSampling
     (Tracing (configureTracingFromSpec example_globals (Some example_spec) example_opts \<lparr>Tracing = None\<rparr>))
     = Some (Some (Finite 100))
   \<and> map_option OverallSampling
     (Tracing (configureTracingFromSpec example_globals (Some example_spec) example_opts \<lparr>Tracing = None\<rparr>))
     = Some (Some (Finite 100))"
proof -
  obtain t' where t': "Tracing (configureTracingFromSpec example_globals (Some example_spec) example_opts
      \<lparr>Tracing = None\<rparr>) = Some t'"
    by (simp add: configureTracingFromSpec_def GetTracing_def example_spec_def example_tracingCfg_def Let_def)
  with sampling_client_overall_fixed [where g = example_globals and t = empty_Tracing
      and p = "Finite 0" and cfg = example_proxyCfg and spec = "Some example_spec"
      and opts = example_opts]
  show ?thesis by simp
qed


text \<open>
  Claim C3. The precedence chain of the random-sampling percentage: a nonzero provider
  percentage is used as it is; a provider percentage of \<open>0\<close> falls through to the legacy
  chain, where a nonzero \<^verbatim>\<open>tracing.sampling\<close> of the proxy configuration wins and is
  replaced by \<open>1.0\<close> when it exceeds \<open>100\<close>, and where otherwise the process-wide
  default applies, replaced by \<open>1.0\<close> when it is below \<open>0\<close> or above \<open>100\<close>.
\<close>

theorem sampling_precedence:
  "(float_ne p (Finite 0) \<longrightarrow> RandomSampling (configureSampling g t p cfg) = Some p)
   \<and> (\<not> float_ne p (Finite 0) \<and> float_ne (GetSampling (proxy_Tracing cfg)) (Finite 0) \<longrightarrow>
        RandomSampling (configureSampling g t p cfg) =
          Some (if float_gt (GetSampling (proxy_Tracing cfg)) (Finite 100) then Finite 1
                else GetSampling (proxy_Tracing cfg)))
   \<and> (\<not> float_ne p (Finite 0) \<and> \<not> float_ne (GetSampling (proxy_Tracing cfg)) (Finite 0) \<longrightarrow>
        RandomSampling (configureSampling g t p cfg) =
          Some (if float_lt (TraceSampling g) (Finite 0) \<or> float_gt (TraceSampling g) (Finite 100)
                then Finite 1 else TraceSampling g))"
  by (cases "proxy_Tracing cfg")
     (simp_all add: RandomSampling_configureSampling fallbackSamplingValue_def GetSampling_def
        pilotTraceSamplingEnv_def getPilotRandomSamplingEnv_def Let_def)

theorem sampling_precedence_witness:
  "RandomSampling (configureSampling example_globals empty_Tracing (Finite 25) example_proxyCfg)
     = Some (Finite 25)
   \<and> RandomSampling (configureSampling example_globals empty_Tracing (Finite 0) example_proxyCfg)
     = Some (Finite 50)
   \<and> RandomSampling (configureSampling example_globals empty_Tracing (Finite 0)
        \<lparr>proxy_Tracing = Some \<lparr>Sampling = Finite 250, proxy_CustomTags = [], proxy_MaxPathTagLength = 0\<rparr>\<rparr>)
     = Some (Finite 1)
   \<and> RandomSampling (configureSampling (example_globals\<lparr>TraceSampling := Finite 300\<rparr>) empty_Tracing
        (Finite 0) \<lparr>proxy_Tracing = None\<rparr>)
     = Some (Finite 1)
   \<and> RandomSampling (configureSampling (example_globals\<lparr>TraceSampling := Finite 30\<rparr>) empty_Tracing
        (Finite 0) \<lparr>proxy_Tracing = None\<rparr>)
     = Some (Finite 30)"
  using sampling_precedence [where p = "Finite 25" and g = example_globals and t = empty_Tracing
      and cfg = example_proxyCfg]
    sampling_precedence [where p = "Finite 0" and g = example_globals and t = empty_Tracing
      and cfg = example_proxyCfg]
    sampling_precedence [where p = "Finite 0" and g = example_globals and t = empty_Tracing
      and cfg = "\<lparr>proxy_Tracing = Some \<lparr>Sampling = Finite 250, proxy_CustomTags = [],
        proxy_MaxPathTagLength = 0\<rparr>\<rparr>"]
    sampling_precedence [where p = "Finite 0" and g = "example_globals\<lparr>TraceSampling := Finite 300\<rparr>"
      and t = empty_Tracing and cfg = "\<lparr>proxy_Tracing = None\<rparr>"]
    sampling_precedence [where p = "Finite 0" and g = "example_globals\<lparr>TraceSampling := Finite 30\<rparr>"
      and t = empty_Tracing and cfg = "\<lparr>proxy_Tracing = None\<rparr>"]
  by (simp add: example_globals_def example_proxyCfg_def GetSampling_def float_gt_def)


lemma in_percent_range_getPilotRandomSamplingEnv:
  "TraceSampling g \<noteq> NaN \<Longrightarrow> in_percent_range (getPilotRandomSamplingEnv g)"
  by (cases "TraceSampling g") (auto simp: getPilotRandomSamplingEnv_def Let_def float_gt_def)


text \<open>
  Claim C4, amended. The resolved random-sampling percentage lies in \<open>[0,100]\<close> in each
  of these cases: the provider percentage is nonzero and itself lies in \<open>[0,100]\<close> (it
  is copied without any check); the provider percentage is \<open>0\<close> and the
  \<^verbatim>\<open>tracing.sampling\<close> of the proxy configuration is nonzero, a number and not below
  \<open>0\<close>; both are \<open>0\<close> and the process-wide setting is a number. Each condition is
  asked only of the value the code reads in that case.
\<close>

theorem sampling_range_amended:
  assumes "float_ne p (Finite 0) \<longrightarrow> in_percent_range p"
    and "\<not> float_ne p (Finite 0) \<and> float_ne (GetSampling (proxy_Tracing cfg)) (Finite 0) \<longrightarrow>
           GetSampling (proxy_Tracing cfg) \<noteq> NaN
           \<and> \<not> float_lt (GetSampling (proxy_Tracing cfg)) (Finite 0)"
    and "\<not> float_ne p (Finite 0) \<and> \<not> float_ne (GetSampling (proxy_Tracing cfg)) (Finite 0) \<longrightarrow>
           TraceSampling g \<noteq> NaN"
  shows "\<exists>v. RandomSampling (configureSampling g t p cfg) = Some v \<and> in_percent_range v"
proof (cases "float_ne p (Finite 0)")
  case True
  with assms(1) show ?thesis by (simp add: RandomSampling_configureSampling)
next
  case False
  have "in_percent_range (fallbackSamplingValue g cfg)"
  proof (cases "float_ne (GetSampling (proxy_Tracing cfg)) (Finite 0)")
    case legacy: True
    then obtain tr where tr: "proxy_Tracing cfg = Some tr"
      by (cases "proxy_Tracing cfg") (simp_all add: GetSampling_def)
    with legacy False assms(2) have s: "float_ne (Sampling tr) (Finite 0)" "Sampling tr \<noteq> NaN"
      "\<not> float_lt (Sampling tr) (Finite 0)"
      by (simp_all add: GetSampling_def)
    with tr show ?thesis
      by (cases "Sampling tr") (auto simp: fallbackSamplingValue_def Let_def float_gt_def)
  next
    case nolegacy: False
    with False assms(3) have "TraceSampling g \<noteq> NaN" by simp
    then have "in_percent_range (pilotTraceSamplingEnv g)"
      by (simp add: pilotTraceSamplingEnv_def in_percent_range_getPilotRandomSamplingEnv)
    with nolegacy show ?thesis
      by (cases "proxy_Tracing cfg") (simp_all add: fallbackSamplingValue_def GetSampling_def)
  qed
  with False show ?thesis by (simp add: RandomSampling_configureSampling)
qed

theorem sampling_range_amended_witness:
  "RandomSampling (configureSampling example_globals empty_Tracing (Finite 25)
      \<lparr>proxy_Tracing = Some \<lparr>Sampling = Finite (- 3), proxy_CustomTags = [],
         proxy_MaxPathTagLength = 0\<rparr>\<rparr>) = Some (Finite 25)
   \<and> in_percent_range (Finite 25)
   \<and> RandomSampling (configureSampling example_globals empty_Tracing (Finite 0) example_proxyCfg)
       = Some (Finite 50)
   \<and> in_percent_range (Finite 50)
   \<and> RandomSampling (configureSampling example_globals empty_Tracing (Finite 0)
        \<lparr>proxy_Tracing = None\<rparr>) = Some (Finite 1)
   \<and> in_percent_range (Finite 1)"
proof -
  let ?neg = "\<lparr>proxy_Tracing = Some \<lparr>Sampling = Finite (- 3), proxy_CustomTags = [],
         proxy_MaxPathTagLength = 0\<rparr>\<rparr>"
  have "\<exists>v. RandomSampling (configureSampling example_globals empty_Tracing (Finite 25) ?neg)
      = Some v \<and> in_percent_range v"
    by (rule sampling_range_amended) simp_all
  moreover have "\<exists>v. RandomSampling (configureSampling example_globals empty_Tracing (Finite 0)
      example_proxyCfg) = Some v \<and> in_percent_range v"
    by (rule sampling_range_amended) (simp_all add: example_proxyCfg_def GetSampling_def)
  moreover have "\<exists>v. RandomSampling (configureSampling example_globals empty_Tracing (Finite 0)
      \<lparr>proxy_Tracing = None\<rparr>) = Some v \<and> in_percent_range v"
    by (rule sampling_range_amended) (simp_all add: example_globals_def GetSampling_def)
  ultimately show ?thesis
    by (simp add: RandomSampling_configureSampling fallbackSamplingValue_def example_proxyCfg_def
        example_globals_def pilotTraceSamplingEnv_def getPilotRandomSamplingEnv_def float_gt_def
        Let_def)
qed

text \<open>As worded, for every input, the claim fails, and it fails wherever one of the three
  conditions does: a provider percentage of \<open>150\<close> is the resolved percentage; with a
  provider percentage of \<open>0\<close> a \<^verbatim>\<open>tracing.sampling\<close> of \<open>-3\<close> is; and with both at
  \<open>0\<close> a process-wide setting that is no number is.\<close>

theorem sampling_range_counterexample:
  "RandomSampling (configureSampling example_globals empty_Tracing (Finite 150) example_proxyCfg)
     = Some (Finite 150)
   \<and> \<not> in_percent_range (Finite 150)
   \<and> RandomSampling (configureSampling example_globals empty_Tracing (Finite 0)
        \<lparr>proxy_Tracing = Some \<lparr>Sampling = Finite (- 3), proxy_CustomTags = [],
           proxy_MaxPathTagLength = 0\<rparr>\<rparr>) = Some (Finite (- 3))
   \<and> \<not> in_percent_range (Finite (- 3))
   \<and> RandomSampling (configureSampling (example_globals\<lparr>TraceSampling := NaN\<rparr>) empty_Tracing
        (Finite 0) \<lparr>proxy_Tracing = None\<rparr>) = Some NaN
   \<and> \<not> in_percent_range NaN"
  by (simp add: RandomSampling_configureSampling fallbackSamplingValue_def
      pilotTraceSamplingEnv_def getPilotRandomSamplingEnv_def float_gt_def Let_def)

subsection \<open>Custom tags\<close>

lemma sort_Slice_post_sorted:
  "sort_Slice_post tags out \<longleftrightarrow> mset out = mset tags \<and> sorted (map Tag out)"
  by (simp add: sort_Slice_post_def sorted_map not_less)

lemma sort_Slice_post_sort_Slice: "sort_Slice_post tags (sort_Slice tags)"
  by (simp add: sort_Slice_post_sorted sort_Slice_def)

lemma sort_Slice_post_strict:
  assumes "sort_Slice_post tags out" and "distinct (map Tag tags)"
  shows "sorted_wrt (\<lambda>a b. Tag a < Tag b) out"
proof -
  from assms(1) have m: "mset out = mset tags" and s: "sorted (map Tag out)"
    by (simp_all add: sort_Slice_post_sorted)
  from m have "mset (map Tag out) = mset (map Tag tags)" by simp
  with assms(2) have "distinct (map Tag out)" by (metis mset_eq_imp_distinct_iff)
  with s have "sorted_wrt (<) (map Tag out)" by (simp add: strict_sorted_iff)
  then show ?thesis by (simp add: sorted_wrt_map)
qed

lemma sort_Slice_post_unique:
  assumes o1: "sort_Slice_post tags out" and o2: "sort_Slice_post tags' out'"
    and m: "mset tags' = mset tags" and d: "distinct (map Tag tags)"
  shows "out' = out"
proof -
  from o1 have m1: "mset out = mset tags" and s1: "sorted (map Tag out)"
    by (simp_all add: sort_Slice_post_sorted)
  from o2 m have m2: "mset out' = mset tags" and s2: "sorted (map Tag out')"
    by (simp_all add: sort_Slice_post_sorted)
  have e1: "mset (map Tag out) = mset (map Tag tags)" using m1 by simp
  have e2: "mset (map Tag out') = mset (map Tag tags)" using m2 by simp
  have d1: "distinct (map Tag out)" using e1 d by (metis mset_eq_imp_distinct_iff)
  have d2: "distinct (map Tag out')" using e2 d by (metis mset_eq_imp_distinct_iff)
  have "set (map Tag out') = set (map Tag out)" using e1 e2 by (metis set_mset_mset)
  with s1 s2 d1 d2 have names: "map Tag out' = map Tag out"
    by (intro sorted_distinct_set_unique)
  have "set out = set tags" "set out' = set tags"
    using m1 m2 by (metis set_mset_mset)+
  moreover from d have "inj_on Tag (set tags)" by (simp add: distinct_map)
  ultimately have "inj_on Tag (set out' \<union> set out)" by simp
  with names show ?thesis by (simp add: inj_on_map_eq_map)
qed

lemma mset_buildCustomTagsFromProvider:
  "mset (buildCustomTagsFromProvider xs) = (\<Sum>e\<in>#mset xs. mset (buildCustomTagsFromProvider [e]))"
  by (induction xs rule: buildCustomTagsFromProvider.induct) simp_all

lemma mset_buildCustomTagsFromProxyConfig:
  "mset (buildCustomTagsFromProxyConfig xs) = (\<Sum>e\<in>#mset xs. mset (buildCustomTagsFromProxyConfig [e]))"
  by (induction xs rule: buildCustomTagsFromProxyConfig.induct) simp_all

lemma Tag_buildCustomTagsFromProvider:
  "set (map Tag (buildCustomTagsFromProvider xs)) \<subseteq> set (map fst xs)"
  by (induction xs rule: buildCustomTagsFromProvider.induct)
     (auto split: telemetry_CustomTag.splits)

lemma Tag_buildCustomTagsFromProxyConfig:
  "set (map Tag (buildCustomTagsFromProxyConfig xs)) \<subseteq> set (map fst xs)"
  by (induction xs rule: buildCustomTagsFromProxyConfig.induct)
     (auto split: meshconfig_CustomTag.splits)

lemma distinct_buildCustomTagsFromProvider:
  "distinct (map fst xs) \<Longrightarrow> distinct (map Tag (buildCustomTagsFromProvider xs))"
proof (induction xs rule: buildCustomTagsFromProvider.induct)
  case 1
  then show ?case by simp
next
  case (2 tagName tagInfo providerTags)
  then have "tagName \<notin> set (map Tag (buildCustomTagsFromProvider providerTags))"
    using Tag_buildCustomTagsFromProvider [of providerTags] by auto
  with 2 show ?case by (cases tagInfo) simp_all
qed

lemma distinct_buildCustomTagsFromProxyConfig:
  "distinct (map fst xs) \<Longrightarrow> distinct (map Tag (buildCustomTagsFromProxyConfig xs))"
proof (induction xs rule: buildCustomTagsFromProxyConfig.induct)
  case 1
  then show ?case by simp
next
  case (2 tagName tagInfo customTags)
  then have "tagName \<notin> set (map Tag (buildCustomTagsFromProxyConfig customTags))"
    using Tag_buildCustomTagsFromProxyConfig [of customTags] by auto
  with 2 show ?case by (cases tagInfo) simp_all
qed

lemma distinct_defaultTags: "distinct (map Tag defaultTags)"
  by (simp add: defaultTags_def)

text \<open>The tags before sorting.\<close>

lemma CustomTags_configureCustomTags:
  "CustomTags (configureCustomTags g t providerTags proxyCfg) =
     sort_Slice ((if EnableIstioTags g then defaultTags else []) @
       (if providerTags = [] then buildCustomTagsFromProxyConfig (GetCustomTags (proxy_Tracing proxyCfg))
        else buildCustomTagsFromProvider providerTags))"
  by (simp add: configureCustomTags_def Let_def)

lemma collected_distinct:
  assumes "distinct (map fst providerTags)"
    and "distinct (map fst (GetCustomTags (proxy_Tracing proxyCfg)))"
    and "EnableIstioTags g \<longrightarrow> set (usedTagNames providerTags proxyCfg) \<inter> set (map Tag defaultTags) = {}"
  shows "distinct (map Tag ((if EnableIstioTags g then defaultTags else []) @
       (if providerTags = [] then buildCustomTagsFromProxyConfig (GetCustomTags (proxy_Tracing proxyCfg))
        else buildCustomTagsFromProvider providerTags)))"
proof (cases "providerTags = []")
  case True
  let ?l = "GetCustomTags (proxy_Tracing proxyCfg)"
  have "distinct (map Tag (buildCustomTagsFromProxyConfig ?l))"
    using assms(2) by (rule distinct_buildCustomTagsFromProxyConfig)
  moreover have "set (map Tag defaultTags) \<inter> set (map Tag (buildCustomTagsFromProxyConfig ?l)) = {}"
    if "EnableIstioTags g"
  proof -
    from that assms(3) True have "set (map fst ?l) \<inter> set (map Tag defaultTags) = {}"
      by (simp add: usedTagNames_def)
    with Tag_buildCustomTagsFromProxyConfig [of ?l] show ?thesis by blast
  qed
  ultimately show ?thesis using True distinct_defaultTags by simp
next
  case False
  have "distinct (map Tag (buildCustomTagsFromProvider providerTags))"
    using assms(1) by (rule distinct_buildCustomTagsFromProvider)
  moreover have "set (map Tag defaultTags) \<inter> set (map Tag (buildCustomTagsFromProvider providerTags)) = {}"
    if "EnableIstioTags g"
  proof -
    from that assms(3) False have "set (map fst providerTags) \<inter> set (map Tag defaultTags) = {}"
      by (simp add: usedTagNames_def)
    with Tag_buildCustomTagsFromProvider [of providerTags] show ?thesis by blast
  qed
  ultimately show ?thesis using False distinct_defaultTags by simp
qed


text \<open>
  Claim C5, amended. The resolved custom tags are sorted ascending by tag name. Let the two
  maps be given in two iteration orders (each key once). When the built-in tags are
  switched off, or no tag name of the map in use is the name of a built-in tag, the
  sequence is strictly ascending and is the same for both orders. By
  \<open>sort_Slice_post_unique\<close> this holds for every sorting that keeps the promise of
  \<^verbatim>\<open>sort.Slice\<close>, not only for the one of the model.
\<close>

theorem customTags_sorted_deterministic:
  assumes "mset providerTags' = mset providerTags"
    and "distinct (map fst providerTags)"
    and "mset (GetCustomTags (proxy_Tracing proxyCfg')) = mset (GetCustomTags (proxy_Tracing proxyCfg))"
    and "distinct (map fst (GetCustomTags (proxy_Tracing proxyCfg)))"
  shows "sorted (map Tag (CustomTags (configureCustomTags g t providerTags proxyCfg)))
    \<and> ((EnableIstioTags g \<longrightarrow>
          set (usedTagNames providerTags proxyCfg) \<inter> set (map Tag defaultTags) = {})
       \<longrightarrow> sorted_wrt (\<lambda>a b. Tag a < Tag b) (CustomTags (configureCustomTags g t providerTags proxyCfg))
         \<and> CustomTags (configureCustomTags g t providerTags' proxyCfg')
             = CustomTags (configureCustomTags g t providerTags proxyCfg))"
proof -
  let ?pre = "if EnableIstioTags g then defaultTags else []"
  let ?tags = "?pre @ (if providerTags = []
        then buildCustomTagsFromProxyConfig (GetCustomTags (proxy_Tracing proxyCfg))
        else buildCustomTagsFromProvider providerTags)"
  let ?tags' = "?pre @ (if providerTags' = []
        then buildCustomTagsFromProxyConfig (GetCustomTags (proxy_Tracing proxyCfg'))
        else buildCustomTagsFromProvider providerTags')"
  have post: "sort_Slice_post ?tags (sort_Slice ?tags)" and post': "sort_Slice_post ?tags' (sort_Slice ?tags')"
    by (rule sort_Slice_post_sort_Slice)+
  have sorted: "sorted (map Tag (CustomTags (configureCustomTags g t providerTags proxyCfg)))"
    using post by (simp only: CustomTags_configureCustomTags sort_Slice_post_sorted)
  have empty_iff: "providerTags' = [] \<longleftrightarrow> providerTags = []"
    using assms(1) by (metis mset_zero_iff)
  have perm: "mset ?tags' = mset ?tags"
  proof (cases "providerTags = []")
    case True
    with empty_iff assms(3) show ?thesis
      by (simp add: mset_buildCustomTagsFromProxyConfig
          [of "GetCustomTags (proxy_Tracing proxyCfg')"]
          mset_buildCustomTagsFromProxyConfig [of "GetCustomTags (proxy_Tracing proxyCfg)"])
  next
    case False
    with empty_iff assms(1) show ?thesis
      by (simp add: mset_buildCustomTagsFromProvider [of providerTags']
          mset_buildCustomTagsFromProvider [of providerTags])
  qed
  have "sorted_wrt (\<lambda>a b. Tag a < Tag b) (CustomTags (configureCustomTags g t providerTags proxyCfg))
         \<and> CustomTags (configureCustomTags g t providerTags' proxyCfg')
             = CustomTags (configureCustomTags g t providerTags proxyCfg)"
    if nc: "EnableIstioTags g \<longrightarrow>
          set (usedTagNames providerTags proxyCfg) \<inter> set (map Tag defaultTags) = {}"
  proof -
    have d: "distinct (map Tag ?tags)"
      using assms(2) assms(4) nc by (rule collected_distinct)
    have "sorted_wrt (\<lambda>a b. Tag a < Tag b) (sort_Slice ?tags)"
      using post d by (rule sort_Slice_post_strict)
    moreover have "sort_Slice ?tags' = sort_Slice ?tags"
      using post post' perm d by (rule sort_Slice_post_unique)
    ultimately show ?thesis by (simp only: CustomTags_configureCustomTags)
  qed
  with sorted show ?thesis by blast
qed

theorem customTags_sorted_deterministic_witness:
  "sorted (map Tag (CustomTags (configureCustomTags example_globals empty_Tracing example_tags example_proxyCfg)))
   \<and> sorted_wrt (\<lambda>a b. Tag a < Tag b)
       (CustomTags (configureCustomTags example_globals empty_Tracing example_tags example_proxyCfg))
   \<and> CustomTags (configureCustomTags example_globals empty_Tracing (rev example_tags) example_proxyCfg)
       = CustomTags (configureCustomTags example_globals empty_Tracing example_tags example_proxyCfg)"
proof -
  have "mset (rev example_tags) = mset example_tags" by simp
  moreover have "distinct (map fst example_tags)" by (simp add: example_tags_def)
  moreover have "mset (GetCustomTags (proxy_Tracing example_proxyCfg))
      = mset (GetCustomTags (proxy_Tracing example_proxyCfg))" by simp
  moreover have "distinct (map fst (GetCustomTags (proxy_Tracing example_proxyCfg)))"
    by (simp add: example_proxyCfg_def GetCustomTags_def)
  moreover have "EnableIstioTags example_globals \<longrightarrow>
      set (usedTagNames example_tags example_proxyCfg) \<inter> set (map Tag defaultTags) = {}"
    by (simp add: usedTagNames_def example_tags_def defaultTags_def)
  ultimately show ?thesis
    using customTags_sorted_deterministic [where providerTags' = "rev example_tags"
        and providerTags = example_tags and proxyCfg' = example_proxyCfg
        and proxyCfg = example_proxyCfg and g = example_globals and t = empty_Tracing]
    by blast
qed


text \<open>As worded, for all tag sets, the sequence is not strictly ascending: a directive
  tag named as a built-in tag stands next to it.\<close>

theorem customTags_strict_counterexample:
  "map Tag (CustomTags (configureCustomTags example_globals empty_Tracing
      [(''istio.mesh_id'', telemetry_Literal ''mesh1'')] example_proxyCfg))
     = [''istio.canonical_revision'', ''istio.canonical_service'', ''istio.mesh_id'',
        ''istio.mesh_id'', ''istio.namespace'']
   \<and> \<not> sorted_wrt (\<lambda>a b. Tag a < Tag b)
      (CustomTags (configureCustomTags example_globals empty_Tracing
         [(''istio.mesh_id'', telemetry_Literal ''mesh1'')] example_proxyCfg))"
  by (simp add: CustomTags_configureCustomTags example_globals_def defaultTags_def sort_Slice_def)


text \<open>
  Claim C6. When the custom-tag map of the directive is not empty, the legacy tags of the
  proxy configuration play no part: the result is the same for every proxy
  configuration, and the resolved tags are the built-in tags (when switched on) and the
  converted entries of the directive, nothing else.
\<close>

theorem customTags_exclusive:
  assumes "providerTags \<noteq> []"
  shows "configureCustomTags g t providerTags proxyCfg = configureCustomTags g t providerTags proxyCfg'
    \<and> mset (CustomTags (configureCustomTags g t providerTags proxyCfg))
        = mset (if EnableIstioTags g then defaultTags else [])
          + mset (buildCustomTagsFromProvider providerTags)"
  using assms by (simp add: configureCustomTags_def Let_def sort_Slice_def)

theorem customTags_exclusive_witness:
  "CustomTags (configureCustomTags example_globals empty_Tracing example_tags example_proxyCfg)
     = CustomTags (configureCustomTags example_globals empty_Tracing example_tags \<lparr>proxy_Tracing = None\<rparr>)
   \<and> map Tag (CustomTags (configureCustomTags example_globals empty_Tracing example_tags example_proxyCfg))
     = [''env'', ''istio.canonical_revision'', ''istio.canonical_service'', ''istio.mesh_id'',
        ''istio.namespace'', ''user'']"
proof -
  have "example_tags \<noteq> []" by (simp add: example_tags_def)
  then have "configureCustomTags example_globals empty_Tracing example_tags example_proxyCfg
      = configureCustomTags example_globals empty_Tracing example_tags \<lparr>proxy_Tracing = None\<rparr>"
    using customTags_exclusive [where providerTags = example_tags and g = example_globals
        and t = empty_Tracing and proxyCfg = example_proxyCfg and proxyCfg' = "\<lparr>proxy_Tracing = None\<rparr>"]
    by blast
  moreover have "map Tag (CustomTags (configureCustomTags example_globals empty_Tracing example_tags
      \<lparr>proxy_Tracing = None\<rparr>))
     = [''env'', ''istio.canonical_revision'', ''istio.canonical_service'', ''istio.mesh_id'',
        ''istio.namespace'', ''user'']"
    by (simp add: CustomTags_configureCustomTags example_globals_def example_tags_def
        defaultTags_def sort_Slice_def)
  ultimately show ?thesis by simp
qed

subsection \<open>Backend builders\<close>

lemma convert_loop:
  "foldl (\<lambda>converted c.
      case c of
        OpenCensusAgent_B3 \<Rightarrow> converted @ [OpenCensusConfig_B3]
      | OpenCensusAgent_CLOUD_TRACE_CONTEXT \<Rightarrow> converted @ [OpenCensusConfig_CLOUD_TRACE_CONTEXT]
      | OpenCensusAgent_GRPC_BIN \<Rightarrow> converted @ [OpenCensusConfig_GRPC_TRACE_BIN]
      | OpenCensusAgent_W3C_TRACE_CONTEXT \<Rightarrow> converted @ [OpenCensusConfig_TRACE_CONTEXT]
      | OpenCensusAgent_unlisted \<Rightarrow> converted) acc ctxs
   = acc @ List.map_filter format_of ctxs"
proof (induction ctxs arbitrary: acc)
  case Nil
  then show ?case by (simp add: List.map_filter_simps)
next
  case (Cons c ctxs)
  then show ?case by (cases c) (simp_all add: List.map_filter_simps format_of_def)
qed

lemma convert_nonempty: "ctxs \<noteq> [] \<Longrightarrow> convert ctxs = List.map_filter format_of ctxs"
  by (simp add: convert_def convert_loop)

lemma convert_empty: "convert [] = allContexts"
  by (simp add: convert_def)


text \<open>
  Claim C8. The build of an OpenCensus provider succeeds, and the payload's incoming and
  outgoing trace-context lists are equal: for an empty configured list both are the four
  supported formats (B3, cloud-trace, gRPC-trace-bin, W3C trace-context); for a non-empty
  list both hold, in the configured order, the output format that corresponds to each
  configured entry (an entry the switch does not list has no format and adds nothing).
\<close>

theorem opencensus_contexts:
  assumes "ext_Provider p = Provider_Opencensus oc"
  shows "\<exists>t cfg. configureFromProviderConfig g pushCtx meta p = (t, None)
      \<and> Provider t = Some \<lparr>Name = ext_Name p, TypedConfig = Any_OpenCensus cfg\<rparr>
      \<and> (Context oc = [] \<longrightarrow>
            IncomingTraceContext cfg =
              [OpenCensusConfig_B3, OpenCensusConfig_CLOUD_TRACE_CONTEXT,
               OpenCensusConfig_GRPC_TRACE_BIN, OpenCensusConfig_TRACE_CONTEXT]
          \<and> OutgoingTraceContext cfg =
              [OpenCensusConfig_B3, OpenCensusConfig_CLOUD_TRACE_CONTEXT,
               OpenCensusConfig_GRPC_TRACE_BIN, OpenCensusConfig_TRACE_CONTEXT])
      \<and> (Context oc \<noteq> [] \<longrightarrow>
            IncomingTraceContext cfg = List.map_filter format_of (Context oc)
          \<and> OutgoingTraceContext cfg = List.map_filter format_of (Context oc))"
proof (cases "Context oc = []")
  case True
  with assms show ?thesis
    by (simp add: configureFromProviderConfig_def buildHCMTracingOpenCensus_def
        opencensusConfigGen_def convert_empty allContexts_def Let_def)
next
  case False
  with assms show ?thesis
    by (simp add: configureFromProviderConfig_def buildHCMTracingOpenCensus_def
        opencensusConfigGen_def convert_nonempty Let_def)
qed

theorem opencensus_contexts_witness:
  "\<exists>t cfg. configureFromProviderConfig example_globals \<lparr>Mesh = example_mesh\<rparr> example_meta
        example_opencensus = (t, None)
     \<and> Provider t = Some \<lparr>Name = ''oc'', TypedConfig = Any_OpenCensus cfg\<rparr>
     \<and> IncomingTraceContext cfg = [OpenCensusConfig_TRACE_CONTEXT, OpenCensusConfig_B3]
     \<and> OutgoingTraceContext cfg = [OpenCensusConfig_TRACE_CONTEXT, OpenCensusConfig_B3]"
proof -
  have p: "ext_Provider example_opencensus = Provider_Opencensus example_opencensus_provider"
    by (simp add: example_opencensus_def)
  have c: "Context example_opencensus_provider \<noteq> []"
    by (simp add: example_opencensus_provider_def)
  have m: "List.map_filter format_of (Context example_opencensus_provider)
      = [OpenCensusConfig_TRACE_CONTEXT, OpenCensusConfig_B3]"
    by (simp add: example_opencensus_provider_def List.map_filter_simps format_of_def)
  have n: "ext_Name example_opencensus = ''oc''"
    by (simp add: example_opencensus_def)
  obtain t cfg where "configureFromProviderConfig example_globals \<lparr>Mesh = example_mesh\<rparr> example_meta
        example_opencensus = (t, None)"
    and "Provider t = Some \<lparr>Name = ext_Name example_opencensus, TypedConfig = Any_OpenCensus cfg\<rparr>"
    and "Context example_opencensus_provider \<noteq> [] \<longrightarrow>
            IncomingTraceContext cfg = List.map_filter format_of (Context example_opencensus_provider)
          \<and> OutgoingTraceContext cfg = List.map_filter format_of (Context example_opencensus_provider)"
    using opencensus_contexts [OF p, of example_globals "\<lparr>Mesh = example_mesh\<rparr>" example_meta]
    by blast
  with c show ?thesis unfolding m n by (intro exI [of _ t] exI [of _ cfg]) simp
qed

lemma digit_val_nonneg: "is_digit c \<Longrightarrow> 0 \<le> digit_val c"
  by (simp add: is_digit_def digit_val_def less_eq_char_def)

lemma foldl_digits_nonneg:
  "0 \<le> a \<Longrightarrow> list_all is_digit ds \<Longrightarrow> 0 \<le> foldl (\<lambda>n ch. n * 10 + digit_val ch) a ds"
proof (induction ds arbitrary: a)
  case Nil
  then show ?case by simp
next
  case (Cons c ds)
  from Cons.prems have "0 \<le> a * 10 + digit_val c"
    using digit_val_nonneg [of c] by simp
  with Cons show ?case by simp
qed

lemma digits_val_nonneg: "list_all is_digit ds \<Longrightarrow> 0 \<le> digits_val ds"
  by (simp add: digits_val_def foldl_digits_nonneg)

lemma not_digit_sign: "\<not> is_digit CHR ''-''" "\<not> is_digit CHR ''+''"
  by (simp_all add: is_digit_def less_eq_char_def)

lemma Atoi_positive_iff:
  "(\<exists>n. Atoi s = Inr n \<and> 1 \<le> n) \<longleftrightarrow> is_positive_integer s"
proof (cases s)
  case Nil
  then show ?thesis by (simp add: Atoi_def is_positive_integer_def)
next
  case (Cons c r)
  consider (minus) "c = CHR ''-''" | (plus) "c = CHR ''+''" | (other) "c \<noteq> CHR ''-''" "c \<noteq> CHR ''+''"
    by blast
  then show ?thesis
  proof cases
    case minus
    have "\<not> (\<exists>n. Atoi s = Inr n \<and> 1 \<le> n)"
      using Cons minus digits_val_nonneg [of r] by (auto simp: Atoi_def Let_def split: if_splits)
    moreover have "\<not> is_positive_integer s"
      using Cons minus not_digit_sign by (simp add: is_positive_integer_def)
    ultimately show ?thesis by simp
  next
    case plus
    with Cons show ?thesis
      using digits_val_nonneg [of r]
      by (auto simp: Atoi_def is_positive_integer_def Let_def split: if_splits)
  next
    case other
    with Cons show ?thesis
      using digits_val_nonneg [of s]
      by (auto simp: Atoi_def is_positive_integer_def Let_def split: if_splits)
  qed
qed

text \<open>
  Claim C9. The build of a Stackdriver provider fails exactly when the platform metadata
  has neither the project key nor the project-number key, or the secure-token-exchange
  port of the proxy metadata is present (not the empty string) and is not a valid
  positive integer. When it succeeds the payload is an OpenCensus configuration; with no
  port it has no token-exchange service, and with a port it has one whose call
  credentials name the service \<^verbatim>\<open>http://localhost:{port}/token\<close>, the port printed
  in decimal.
\<close>

theorem stackdriver_builder:
  assumes "ext_Provider p = Provider_Stackdriver sd"
  shows "(snd (configureFromProviderConfig g pushCtx meta p) \<noteq> None \<longleftrightarrow>
            (PlatformMetadata meta GCPProject = None \<and> PlatformMetadata meta GCPProjectNumber = None)
            \<or> (StsPort meta \<noteq> [] \<and> \<not> is_positive_integer (StsPort meta)))
    \<and> (snd (configureFromProviderConfig g pushCtx meta p) = None \<longrightarrow>
         (\<exists>cfg. Provider (fst (configureFromProviderConfig g pushCtx meta p))
                  = Some \<lparr>Name = ext_Name p, TypedConfig = Any_OpenCensus cfg\<rparr>
            \<and> (StsPort meta = [] \<longrightarrow> StackdriverGrpcService cfg = None)
            \<and> (StsPort meta \<noteq> [] \<longrightarrow>
                 (\<exists>n svc sts. Atoi (StsPort meta) = Inr n \<and> 1 \<le> n
                    \<and> StackdriverGrpcService cfg = Some svc \<and> CallCredentials svc = [sts]
                    \<and> TokenExchangeServiceUri sts = ''http://localhost:'' @ itoa n @ ''/token''))))"
proof (cases "PlatformMetadata meta GCPProject = None \<and> PlatformMetadata meta GCPProjectNumber = None")
  case True
  with assms show ?thesis
    by (simp add: configureFromProviderConfig_def buildHCMTracingOpenCensus_def
        stackdriverConfigGen_def empty_OpenCensusConfig_def Let_def)
next
  case False
  then obtain proj where proj: "(case PlatformMetadata meta GCPProject of
        Some p \<Rightarrow> Some p | None \<Rightarrow> PlatformMetadata meta GCPProjectNumber) = Some proj"
    by (cases "PlatformMetadata meta GCPProject") auto
  show ?thesis
  proof (cases "StsPort meta = []")
    case True
    with assms False proj show ?thesis
      by (simp add: configureFromProviderConfig_def buildHCMTracingOpenCensus_def
          stackdriverConfigGen_def empty_OpenCensusConfig_def Let_def)
  next
    case port: False
    show ?thesis
    proof (cases "is_positive_integer (StsPort meta)")
      case True
      then obtain n where n: "Atoi (StsPort meta) = Inr n" "1 \<le> n"
        using Atoi_positive_iff [of "StsPort meta"] by blast
      with assms False proj port True show ?thesis
        by (simp add: configureFromProviderConfig_def buildHCMTracingOpenCensus_def
            stackdriverConfigGen_def stsGrpcService_def empty_OpenCensusConfig_def Let_def)
    next
      case bad: False
      then have "\<not> (\<exists>n. Atoi (StsPort meta) = Inr n \<and> 1 \<le> n)"
        using Atoi_positive_iff [of "StsPort meta"] by blast
      then have "(case Atoi (StsPort meta) of Inl err \<Rightarrow> True | Inr n \<Rightarrow> n < 1)"
        by (cases "Atoi (StsPort meta)") auto
      with assms False proj port bad show ?thesis
        by (cases "Atoi (StsPort meta)")
           (simp_all add: configureFromProviderConfig_def buildHCMTracingOpenCensus_def
              stackdriverConfigGen_def empty_OpenCensusConfig_def Let_def)
    qed
  qed
qed

lemma example_sd:
  "ext_Provider example_stackdriver = Provider_Stackdriver example_stackdriver_provider"
  by (simp add: example_stackdriver_def)

lemma Atoi_15463: "Atoi ''15463'' = Inr 15463"
  by (simp add: Atoi_def is_digit_def digits_val_def digit_val_def)

lemma itoa_15463: "itoa 15463 = ''15463''"
  by (simp add: itoa_def itoa_nat.simps digit_char_def)

theorem stackdriver_builder_witness:
  "snd (configureFromProviderConfig example_globals \<lparr>Mesh = example_mesh\<rparr> example_meta
          example_stackdriver) = None
   \<and> (\<exists>cfg svc sts.
         Provider (fst (configureFromProviderConfig example_globals \<lparr>Mesh = example_mesh\<rparr>
           example_meta example_stackdriver))
           = Some \<lparr>Name = ''sd'', TypedConfig = Any_OpenCensus cfg\<rparr>
         \<and> StackdriverGrpcService cfg = Some svc \<and> CallCredentials svc = [sts]
         \<and> TokenExchangeServiceUri sts = ''http://localhost:15463/token'')
   \<and> snd (configureFromProviderConfig example_globals \<lparr>Mesh = example_mesh\<rparr>
          (example_meta\<lparr>PlatformMetadata := Map.empty\<rparr>) example_stackdriver) \<noteq> None
   \<and> snd (configureFromProviderConfig example_globals \<lparr>Mesh = example_mesh\<rparr>
          (example_meta\<lparr>StsPort := ''0''\<rparr>) example_stackdriver) \<noteq> None
   \<and> snd (configureFromProviderConfig example_globals \<lparr>Mesh = example_mesh\<rparr>
          (example_meta\<lparr>StsPort := ''http''\<rparr>) example_stackdriver) \<noteq> None"
proof -
  let ?build = "\<lambda>meta. configureFromProviderConfig example_globals \<lparr>Mesh = example_mesh\<rparr> meta
      example_stackdriver"
  have port: "StsPort example_meta = ''15463''" by (simp add: example_meta_def)
  have pos: "is_positive_integer (StsPort example_meta)"
    by (simp add: port is_positive_integer_def is_digit_def digits_val_def digit_val_def)
  have proj: "PlatformMetadata example_meta GCPProjectNumber \<noteq> None"
    by (simp add: example_meta_def)
  have name: "ext_Name example_stackdriver = ''sd''" by (simp add: example_stackdriver_def)
  note sb = stackdriver_builder [OF example_sd, of example_globals "\<lparr>Mesh = example_mesh\<rparr>"]
  have ok: "snd (?build example_meta) = None"
    using sb [of example_meta, THEN conjunct1] pos proj by simp
  have uri: "\<exists>cfg svc sts. Provider (fst (?build example_meta))
           = Some \<lparr>Name = ''sd'', TypedConfig = Any_OpenCensus cfg\<rparr>
         \<and> StackdriverGrpcService cfg = Some svc \<and> CallCredentials svc = [sts]
         \<and> TokenExchangeServiceUri sts = ''http://localhost:15463/token''"
    using sb [of example_meta, THEN conjunct2] ok
    by (auto simp: port name Atoi_15463 itoa_15463)
  have e1: "snd (?build (example_meta\<lparr>PlatformMetadata := Map.empty\<rparr>)) \<noteq> None"
    using sb [of "example_meta\<lparr>PlatformMetadata := Map.empty\<rparr>", THEN conjunct1] by simp
  have "\<not> is_positive_integer ''0''"
    by (simp add: is_positive_integer_def is_digit_def digits_val_def digit_val_def)
  then have e2: "snd (?build (example_meta\<lparr>StsPort := ''0''\<rparr>)) \<noteq> None"
    using sb [of "example_meta\<lparr>StsPort := ''0''\<rparr>", THEN conjunct1] by simp
  have "\<not> is_positive_integer ''http''"
    by (simp add: is_positive_integer_def is_digit_def)
  then have e3: "snd (?build (example_meta\<lparr>StsPort := ''http''\<rparr>)) \<noteq> None"
    using sb [of "example_meta\<lparr>StsPort := ''http''\<rparr>", THEN conjunct1] by simp
  from ok uri e1 e2 e3 show ?thesis by (intro conjI)
qed

subsection \<open>The orchestrator\<close>

lemma providerLoop_find:
  "providerLoop g opts providerName ps =
     map_option (\<lambda>p. fst (configureFromProviderConfig g (push opts) (Metadata (proxy opts)) p))
       (find (\<lambda>p. EqualFold g (ext_Name p) providerName
                \<and> snd (configureFromProviderConfig g (push opts) (Metadata (proxy opts)) p) = None) ps)"
  by (induction ps) (auto split: prod.splits option.splits)

lemma providerLoop_no_success:
  assumes "\<forall>p\<in>set ps. EqualFold g (ext_Name p) providerName \<longrightarrow>
             snd (configureFromProviderConfig g (push opts) (Metadata (proxy opts)) p) \<noteq> None"
  shows "providerLoop g opts providerName ps = None"
  using assms by (induction ps) (auto split: prod.splits option.splits)

lemma providerLoop_skip:
  assumes "\<forall>q\<in>set pre. \<not> EqualFold g (ext_Name q) providerName
              \<or> snd (configureFromProviderConfig g (push opts) (Metadata (proxy opts)) q) \<noteq> None"
  shows "providerLoop g opts providerName (pre @ ps) = providerLoop g opts providerName ps"
  using assms by (induction pre) (auto split: prod.splits option.splits)

lemma configureTracingFromSpec_enabled:
  assumes "GetTracing spec = tracingCfg # others" and "\<not> DisableSpanReporting tracingCfg"
  shows "\<exists>t. Tracing (configureTracingFromSpec g spec opts hcm) = Some t
     \<and> ClientSampling t = Some (Finite 100) \<and> OverallSampling t = Some (Finite 100)
     \<and> RandomSampling t = RandomSampling (configureSampling g empty_Tracing
          (RandomSamplingPercentage tracingCfg)
          (ProxyConfigOrDefault (Metadata (proxy opts)) (DefaultConfig (Mesh (push opts)))))
     \<and> CustomTags t = CustomTags (configureCustomTags g empty_Tracing (spec_CustomTags tracingCfg)
          (ProxyConfigOrDefault (Metadata (proxy opts)) (DefaultConfig (Mesh (push opts)))))
     \<and> Provider t = (case providerLoop g opts
            (case Providers tracingCfg of [] \<Rightarrow> GetDefaultTracing (DefaultProviders (Mesh (push opts)))
             | r # rs \<Rightarrow> ref_Name r) (ExtensionProviders (Mesh (push opts)))
          of Some tcfg \<Rightarrow> Provider tcfg | None \<Rightarrow> None)
     \<and> MaxPathTagLength t = (case (case providerLoop g opts
            (case Providers tracingCfg of [] \<Rightarrow> GetDefaultTracing (DefaultProviders (Mesh (push opts)))
             | r # rs \<Rightarrow> ref_Name r) (ExtensionProviders (Mesh (push opts)))
          of Some tcfg \<Rightarrow> MaxPathTagLength tcfg | None \<Rightarrow> None) of
          Some l \<Rightarrow> Some l
        | None \<Rightarrow> if GetMaxPathTagLength (proxy_Tracing
              (ProxyConfigOrDefault (Metadata (proxy opts)) (DefaultConfig (Mesh (push opts))))) \<noteq> 0
            then Some (GetMaxPathTagLength (proxy_Tracing
              (ProxyConfigOrDefault (Metadata (proxy opts)) (DefaultConfig (Mesh (push opts))))))
            else None)"
  using assms
  by (simp add: configureTracingFromSpec_def Let_def ClientSampling_configureSampling
      OverallSampling_configureSampling RandomSampling_configureSampling
      CustomTags_configureCustomTags empty_Tracing_def split: option.splits)

text \<open>
  Claim C2. When the first tracing spec of the directive has \<^verbatim>\<open>disableSpanReporting\<close>
  set, \<^verbatim>\<open>configureTracingFromSpec\<close> returns at once and leaves the connection manager
  as it was: a manager without a tracing block still has none, so no provider, no custom
  tag and no sampling field is set, whatever the mesh and the proxy configuration hold.
\<close>

theorem disableSpanReporting_empty:
  assumes "GetTracing spec = tracingCfg # others" and "DisableSpanReporting tracingCfg"
  shows "configureTracingFromSpec g spec opts hcm = hcm
         \<and> (Tracing hcm = None \<longrightarrow> Tracing (configureTracingFromSpec g spec opts hcm) = None)"
  using assms by (simp add: configureTracingFromSpec_def Let_def)

theorem disableSpanReporting_empty_witness:
  "Tracing (configureTracingFromSpec example_globals
      (Some \<lparr>spec_Tracing = [example_tracingCfg\<lparr>DisableSpanReporting := True\<rparr>]\<rparr>)
      example_opts \<lparr>Tracing = None\<rparr>) = None"
proof -
  have "GetTracing (Some \<lparr>spec_Tracing = [example_tracingCfg\<lparr>DisableSpanReporting := True\<rparr>]\<rparr>)
          = example_tracingCfg\<lparr>DisableSpanReporting := True\<rparr> # []"
    by (simp add: GetTracing_def)
  moreover have "DisableSpanReporting (example_tracingCfg\<lparr>DisableSpanReporting := True\<rparr>)"
    by simp
  ultimately show ?thesis
    using disableSpanReporting_empty [where others = "[]" and g = example_globals
        and opts = example_opts and hcm = "\<lparr>Tracing = None\<rparr>"]
    by simp
qed

text \<open>
  Claim C10. When the first extension provider whose name matches (case-insensitively) is
  of a kind outside Zipkin, Datadog, Lightstep, OpenCensus and Stackdriver, its build
  succeeds with an empty block, so the loop stops there with a provider configured,
  whatever providers follow; the resolved block then has no provider payload, and its
  max-path-tag length is only the fallback of the proxy configuration (set when nonzero).
\<close>

theorem unknown_kind_stops_scan:
  assumes "ext_Provider p = Provider_other"
    and "EqualFold g (ext_Name p) providerName"
    and "\<forall>q\<in>set pre. \<not> EqualFold g (ext_Name q) providerName"
  shows "configureFromProviderConfig g pushCtx meta p = (empty_Tracing, None)
    \<and> providerLoop g opts providerName (pre @ p # post) = Some empty_Tracing
    \<and> (GetTracing spec = tracingCfg # others \<and> \<not> DisableSpanReporting tracingCfg
         \<and> ExtensionProviders (Mesh (push opts)) = pre @ p # post
         \<and> providerName = (case Providers tracingCfg of
               [] \<Rightarrow> GetDefaultTracing (DefaultProviders (Mesh (push opts)))
             | r # rs \<Rightarrow> ref_Name r)
       \<longrightarrow> (\<exists>t. Tracing (configureTracingFromSpec g spec opts hcm) = Some t
              \<and> Provider t = None
              \<and> MaxPathTagLength t =
                  (if GetMaxPathTagLength (proxy_Tracing
                        (ProxyConfigOrDefault (Metadata (proxy opts)) (DefaultConfig (Mesh (push opts))))) \<noteq> 0
                   then Some (GetMaxPathTagLength (proxy_Tracing
                        (ProxyConfigOrDefault (Metadata (proxy opts)) (DefaultConfig (Mesh (push opts))))))
                   else None)))"
proof -
  have build: "configureFromProviderConfig g' pushCtx' meta' p = (empty_Tracing, None)"
    for g' pushCtx' meta'
    using assms(1) by (simp add: configureFromProviderConfig_def)
  have "providerLoop g opts providerName (pre @ p # post) = providerLoop g opts providerName (p # post)"
    using assms(3) by (intro providerLoop_skip) blast
  with assms(2) have loop: "providerLoop g opts providerName (pre @ p # post) = Some empty_Tracing"
    by (simp add: build)
  have "\<exists>t. Tracing (configureTracingFromSpec g spec opts hcm) = Some t
              \<and> Provider t = None
              \<and> MaxPathTagLength t =
                  (if GetMaxPathTagLength (proxy_Tracing
                        (ProxyConfigOrDefault (Metadata (proxy opts)) (DefaultConfig (Mesh (push opts))))) \<noteq> 0
                   then Some (GetMaxPathTagLength (proxy_Tracing
                        (ProxyConfigOrDefault (Metadata (proxy opts)) (DefaultConfig (Mesh (push opts))))))
                   else None)"
    if h: "GetTracing spec = tracingCfg # others" "\<not> DisableSpanReporting tracingCfg"
       "ExtensionProviders (Mesh (push opts)) = pre @ p # post"
       "providerName = (case Providers tracingCfg of
               [] \<Rightarrow> GetDefaultTracing (DefaultProviders (Mesh (push opts)))
             | r # rs \<Rightarrow> ref_Name r)"
    using configureTracingFromSpec_enabled [OF h(1) h(2), of g opts hcm] loop
    unfolding h(3) h(4) [symmetric]
    by (auto simp: empty_Tracing_def)
  with build loop show ?thesis by blast
qed

theorem unknown_kind_stops_scan_witness:
  "providerLoop example_globals (example_opts_with [example_unknown, example_zipkin]) ''zipkin''
      [example_unknown, example_zipkin] = Some empty_Tracing
   \<and> map_option Provider (Tracing (configureTracingFromSpec example_globals (Some example_spec)
        (example_opts_with [example_unknown, example_zipkin]) \<lparr>Tracing = None\<rparr>)) = Some None
   \<and> map_option MaxPathTagLength (Tracing (configureTracingFromSpec example_globals (Some example_spec)
        (example_opts_with [example_unknown, example_zipkin]) \<lparr>Tracing = None\<rparr>)) = Some None
   \<and> map_option MaxPathTagLength (providerLoop example_globals
        (example_opts_with [example_unknown, example_zipkin]) ''zipkin'' [example_zipkin])
       = Some (Some 256)"
proof -
  let ?opts = "example_opts_with [example_unknown, example_zipkin]"
  have a: "ext_Provider example_unknown = Provider_other" by (simp add: example_unknown_def)
  have b: "EqualFold example_globals (ext_Name example_unknown) ''zipkin''"
    by (simp add: example_unknown_def example_globals_def EqualFold_ASCII_def toLowerASCII_def)
  have c: "\<forall>q\<in>set []. \<not> EqualFold example_globals (ext_Name q) ''zipkin''" by simp
  note u = unknown_kind_stops_scan [OF a b c, where opts = ?opts
      and post = "[example_zipkin]" and spec = "Some example_spec" and tracingCfg = example_tracingCfg
      and others = "[]" and hcm = "\<lparr>Tracing = None\<rparr>"]
  have h: "GetTracing (Some example_spec) = example_tracingCfg # []
      \<and> \<not> DisableSpanReporting example_tracingCfg
      \<and> ExtensionProviders (Mesh (push ?opts)) = [] @ example_unknown # [example_zipkin]
      \<and> ''zipkin'' = (case Providers example_tracingCfg of
               [] \<Rightarrow> GetDefaultTracing (DefaultProviders (Mesh (push ?opts)))
             | r # rs \<Rightarrow> ref_Name r)"
    by (simp add: GetTracing_def example_spec_def example_tracingCfg_def example_opts_with_def
        example_mesh_def GetDefaultTracing_def)
  have z: "GetMaxPathTagLength (proxy_Tracing
      (ProxyConfigOrDefault (Metadata (proxy ?opts)) (DefaultConfig (Mesh (push ?opts))))) = 0"
    by (simp add: example_opts_with_def example_meta_def example_proxyCfg_def
        ProxyConfigOrDefault_def GetMaxPathTagLength_def)
  from u h have "\<exists>t. Tracing (configureTracingFromSpec example_globals (Some example_spec) ?opts
        \<lparr>Tracing = None\<rparr>) = Some t \<and> Provider t = None \<and> MaxPathTagLength t = None"
    unfolding z by simp
  moreover from u have "providerLoop example_globals ?opts ''zipkin''
      [example_unknown, example_zipkin] = Some empty_Tracing" by simp
  moreover have "map_option MaxPathTagLength (providerLoop example_globals ?opts ''zipkin''
      [example_zipkin]) = Some (Some 256)"
    by (simp add: configureFromProviderConfig_def buildHCMTracing_def zipkinConfigGen_def
        example_zipkin_def example_globals_def EqualFold_ASCII_def toLowerASCII_def empty_Tracing_def Let_def)
  ultimately show ?thesis by auto
qed

lemma configureTracingFromSpec_no_directive:
  assumes "GetTracing spec = []" and "EnableTracing (Mesh (push opts))"
  shows "\<exists>t. Tracing (configureTracingFromSpec g spec opts hcm) = Some t
     \<and> Provider t = None
     \<and> ClientSampling t = Some (Finite 100) \<and> OverallSampling t = Some (Finite 100)
     \<and> RandomSampling t = RandomSampling (configureSampling g empty_Tracing (Finite 0)
          (ProxyConfigOrDefault (Metadata (proxy opts)) (DefaultConfig (Mesh (push opts)))))
     \<and> CustomTags t = CustomTags (configureCustomTags g empty_Tracing []
          (ProxyConfigOrDefault (Metadata (proxy opts)) (DefaultConfig (Mesh (push opts)))))"
  using assms
  by (simp add: configureTracingFromSpec_def Let_def ClientSampling_configureSampling
      OverallSampling_configureSampling RandomSampling_configureSampling
      CustomTags_configureCustomTags empty_Tracing_def)


text \<open>
  Claim C1. Resolution never fails as a whole. \<^verbatim>\<open>configureTracingFromSpec\<close> returns a
  connection manager on every input and has no error result. A matching provider whose
  build fails is skipped and the scan goes on with the providers after it: the loop
  yields the block of the first matching provider whose build succeeds. On each of the
  four paths (no directive with tracing off or on, span reporting disabled, or a spec in
  use) the result is the manager as it was or a block with both fixed percentages, the
  random-sampling percentage and the custom tags. With a spec in use the provider of
  that block is the one built for the first extension provider of the mesh that matches
  the requested name and builds, and there is none when no matching provider builds.
\<close>

theorem resolution_never_fails:
  "(EqualFold g (ext_Name p) providerName
      \<and> snd (configureFromProviderConfig g (push opts) (Metadata (proxy opts)) p) \<noteq> None
     \<longrightarrow> providerLoop g opts providerName (p # ps) = providerLoop g opts providerName ps)
   \<and> providerLoop g opts providerName ps =
       map_option (\<lambda>q. fst (configureFromProviderConfig g (push opts) (Metadata (proxy opts)) q))
         (find (\<lambda>q. EqualFold g (ext_Name q) providerName
                  \<and> snd (configureFromProviderConfig g (push opts) (Metadata (proxy opts)) q) = None) ps)
   \<and> (GetTracing spec = [] \<and> \<not> EnableTracing (Mesh (push opts))
        \<longrightarrow> configureTracingFromSpec g spec opts hcm = hcm)
   \<and> (GetTracing spec = [] \<and> EnableTracing (Mesh (push opts))
        \<longrightarrow> (\<exists>t. Tracing (configureTracingFromSpec g spec opts hcm) = Some t
               \<and> Provider t = None
               \<and> ClientSampling t = Some (Finite 100) \<and> OverallSampling t = Some (Finite 100)
               \<and> RandomSampling t = RandomSampling (configureSampling g empty_Tracing (Finite 0)
                    (ProxyConfigOrDefault (Metadata (proxy opts)) (DefaultConfig (Mesh (push opts)))))
               \<and> CustomTags t = CustomTags (configureCustomTags g empty_Tracing []
                    (ProxyConfigOrDefault (Metadata (proxy opts)) (DefaultConfig (Mesh (push opts)))))))
   \<and> (GetTracing spec = tracingCfg # others \<and> DisableSpanReporting tracingCfg
        \<longrightarrow> configureTracingFromSpec g spec opts hcm = hcm)
   \<and> (GetTracing spec = tracingCfg # others \<and> \<not> DisableSpanReporting tracingCfg
        \<longrightarrow> (\<exists>t. Tracing (configureTracingFromSpec g spec opts hcm) = Some t
               \<and> ClientSampling t = Some (Finite 100) \<and> OverallSampling t = Some (Finite 100)
               \<and> RandomSampling t = RandomSampling (configureSampling g empty_Tracing
                    (RandomSamplingPercentage tracingCfg)
                    (ProxyConfigOrDefault (Metadata (proxy opts)) (DefaultConfig (Mesh (push opts)))))
               \<and> CustomTags t = CustomTags (configureCustomTags g empty_Tracing
                    (spec_CustomTags tracingCfg)
                    (ProxyConfigOrDefault (Metadata (proxy opts)) (DefaultConfig (Mesh (push opts)))))
               \<and> Provider t =
                   (case find (\<lambda>q. EqualFold g (ext_Name q)
                                  (case Providers tracingCfg of
                                     [] \<Rightarrow> GetDefaultTracing (DefaultProviders (Mesh (push opts)))
                                   | r # rs \<Rightarrow> ref_Name r)
                                \<and> snd (configureFromProviderConfig g (push opts)
                                         (Metadata (proxy opts)) q) = None)
                           (ExtensionProviders (Mesh (push opts))) of
                      None \<Rightarrow> None
                    | Some q \<Rightarrow> Provider (fst (configureFromProviderConfig g (push opts)
                                                (Metadata (proxy opts)) q)))
               \<and> ((\<forall>q\<in>set (ExtensionProviders (Mesh (push opts))).
                      EqualFold g (ext_Name q)
                        (case Providers tracingCfg of
                           [] \<Rightarrow> GetDefaultTracing (DefaultProviders (Mesh (push opts)))
                         | r # rs \<Rightarrow> ref_Name r)
                      \<longrightarrow> snd (configureFromProviderConfig g (push opts) (Metadata (proxy opts)) q) \<noteq> None)
                    \<longrightarrow> Provider t = None)))"
proof -
  have skip: "providerLoop g opts providerName (p # ps) = providerLoop g opts providerName ps"
    if "EqualFold g (ext_Name p) providerName"
       "snd (configureFromProviderConfig g (push opts) (Metadata (proxy opts)) p) \<noteq> None"
    using that by (auto split: prod.splits option.splits)
  have off: "configureTracingFromSpec g spec opts hcm = hcm"
    if "GetTracing spec = []" "\<not> EnableTracing (Mesh (push opts))"
    using that by (simp add: configureTracingFromSpec_def Let_def)
  have disabled: "configureTracingFromSpec g spec opts hcm = hcm"
    if "GetTracing spec = tracingCfg # others" "DisableSpanReporting tracingCfg"
    using that by (simp add: configureTracingFromSpec_def Let_def)
  have enabled: "(\<exists>t. Tracing (configureTracingFromSpec g spec opts hcm) = Some t
                \<and> ClientSampling t = Some (Finite 100) \<and> OverallSampling t = Some (Finite 100)
                \<and> RandomSampling t = RandomSampling (configureSampling g empty_Tracing
                     (RandomSamplingPercentage tracingCfg)
                     (ProxyConfigOrDefault (Metadata (proxy opts)) (DefaultConfig (Mesh (push opts)))))
                \<and> CustomTags t = CustomTags (configureCustomTags g empty_Tracing
                     (spec_CustomTags tracingCfg)
                     (ProxyConfigOrDefault (Metadata (proxy opts)) (DefaultConfig (Mesh (push opts)))))
                \<and> Provider t =
                    (case find (\<lambda>q. EqualFold g (ext_Name q)
                                   (case Providers tracingCfg of
                                      [] \<Rightarrow> GetDefaultTracing (DefaultProviders (Mesh (push opts)))
                                    | r # rs \<Rightarrow> ref_Name r)
                                 \<and> snd (configureFromProviderConfig g (push opts)
                                          (Metadata (proxy opts)) q) = None)
                            (ExtensionProviders (Mesh (push opts))) of
                       None \<Rightarrow> None
                     | Some q \<Rightarrow> Provider (fst (configureFromProviderConfig g (push opts)
                                                 (Metadata (proxy opts)) q)))
                \<and> ((\<forall>q\<in>set (ExtensionProviders (Mesh (push opts))).
                       EqualFold g (ext_Name q)
                         (case Providers tracingCfg of
                            [] \<Rightarrow> GetDefaultTracing (DefaultProviders (Mesh (push opts)))
                          | r # rs \<Rightarrow> ref_Name r)
                       \<longrightarrow> snd (configureFromProviderConfig g (push opts) (Metadata (proxy opts)) q) \<noteq> None)
                     \<longrightarrow> Provider t = None))"
    if h: "GetTracing spec = tracingCfg # others" "\<not> DisableSpanReporting tracingCfg"
  proof -
    let ?name = "case Providers tracingCfg of
                           [] \<Rightarrow> GetDefaultTracing (DefaultProviders (Mesh (push opts)))
                         | r # rs \<Rightarrow> ref_Name r"
    let ?build = "\<lambda>q. configureFromProviderConfig g (push opts) (Metadata (proxy opts)) q"
    let ?found = "find (\<lambda>q. EqualFold g (ext_Name q) ?name \<and> snd (?build q) = None)
        (ExtensionProviders (Mesh (push opts)))"
    obtain t where t: "Tracing (configureTracingFromSpec g spec opts hcm) = Some t"
      "ClientSampling t = Some (Finite 100)" "OverallSampling t = Some (Finite 100)"
      "RandomSampling t = RandomSampling (configureSampling g empty_Tracing
                    (RandomSamplingPercentage tracingCfg)
                    (ProxyConfigOrDefault (Metadata (proxy opts)) (DefaultConfig (Mesh (push opts)))))"
      "CustomTags t = CustomTags (configureCustomTags g empty_Tracing
                    (spec_CustomTags tracingCfg)
                    (ProxyConfigOrDefault (Metadata (proxy opts)) (DefaultConfig (Mesh (push opts)))))"
      "Provider t = (case providerLoop g opts ?name (ExtensionProviders (Mesh (push opts)))
          of Some tcfg \<Rightarrow> Provider tcfg | None \<Rightarrow> None)"
      using configureTracingFromSpec_enabled [OF h, of g opts hcm] by blast
    have scan: "Provider t = (case ?found of None \<Rightarrow> None | Some q \<Rightarrow> Provider (fst (?build q)))"
      unfolding t(6) providerLoop_find by (cases ?found) simp_all
    have none: "Provider t = None"
      if "\<forall>q\<in>set (ExtensionProviders (Mesh (push opts))). EqualFold g (ext_Name q) ?name
            \<longrightarrow> snd (?build q) \<noteq> None"
      using providerLoop_no_success [OF that] t(6) by simp
    from t(1-5) scan none show ?thesis by blast
  qed
  from skip providerLoop_find [of g opts providerName ps] off disabled enabled
    configureTracingFromSpec_no_directive [of spec opts g hcm]
  show ?thesis by blast
qed

theorem resolution_never_fails_witness:
  "providerLoop example_globals (example_opts_with [example_zipkin_unresolvable]) ''zipkin''
      [example_zipkin_unresolvable, example_zipkin]
     = providerLoop example_globals (example_opts_with [example_zipkin_unresolvable]) ''zipkin''
         [example_zipkin]
   \<and> map_option (\<lambda>t. map_option Name (Provider t))
       (Tracing (configureTracingFromSpec example_globals (Some example_spec)
          (example_opts_with [example_zipkin_unresolvable, example_zipkin]) \<lparr>Tracing = None\<rparr>))
       = Some (Some ''Zipkin'')
   \<and> map_option Provider (Tracing (configureTracingFromSpec example_globals (Some example_spec)
        (example_opts_with [example_zipkin_unresolvable]) \<lparr>Tracing = None\<rparr>)) = Some None
   \<and> map_option ClientSampling (Tracing (configureTracingFromSpec example_globals (Some example_spec)
        (example_opts_with [example_zipkin_unresolvable]) \<lparr>Tracing = None\<rparr>)) = Some (Some (Finite 100))
   \<and> map_option RandomSampling (Tracing (configureTracingFromSpec example_globals (Some example_spec)
        (example_opts_with [example_zipkin_unresolvable]) \<lparr>Tracing = None\<rparr>)) = Some (Some (Finite 50))
   \<and> map_option (\<lambda>t. map Tag (CustomTags t)) (Tracing (configureTracingFromSpec example_globals
        (Some example_spec) (example_opts_with [example_zipkin_unresolvable]) \<lparr>Tracing = None\<rparr>))
       = Some [''env'', ''istio.canonical_revision'', ''istio.canonical_service'', ''istio.mesh_id'',
               ''istio.namespace'']"
proof -
  let ?opts = "example_opts_with [example_zipkin_unresolvable]"
  let ?both = "example_opts_with [example_zipkin_unresolvable, example_zipkin]"
  let ?cfg = "ProxyConfigOrDefault (Metadata (proxy ?opts)) (DefaultConfig (Mesh (push ?opts)))"
  have name: "EqualFold example_globals (ext_Name example_zipkin_unresolvable) ''zipkin''"
    by (simp add: example_zipkin_unresolvable_def example_globals_def EqualFold_ASCII_def)
  have name2: "EqualFold example_globals (ext_Name example_zipkin) ''zipkin''"
    by (simp add: example_zipkin_def example_globals_def EqualFold_ASCII_def toLowerASCII_def)
  have fails: "snd (configureFromProviderConfig example_globals pc m example_zipkin_unresolvable) \<noteq> None"
    for pc m
    by (simp add: configureFromProviderConfig_def buildHCMTracing_def example_zipkin_unresolvable_def
        example_globals_def Let_def)
  have builds: "snd (configureFromProviderConfig example_globals pc m example_zipkin) = None"
    "map_option Name (Provider (fst (configureFromProviderConfig example_globals pc m example_zipkin)))
       = Some ''Zipkin''"
    for pc m
    by (simp_all add: configureFromProviderConfig_def buildHCMTracing_def zipkinConfigGen_def
        example_zipkin_def example_globals_def empty_Tracing_def Let_def)
  have spec: "GetTracing (Some example_spec) = example_tracingCfg # []"
    "\<not> DisableSpanReporting example_tracingCfg"
    by (simp_all add: GetTracing_def example_spec_def example_tracingCfg_def)
  have req: "(case Providers example_tracingCfg of
           [] \<Rightarrow> GetDefaultTracing (DefaultProviders (Mesh (push (example_opts_with ps))))
         | r # rs \<Rightarrow> ref_Name r) = ''zipkin''" for ps
    by (simp add: example_tracingCfg_def example_opts_with_def example_mesh_def GetDefaultTracing_def)
  have provs: "ExtensionProviders (Mesh (push (example_opts_with ps))) = ps" for ps
    by (simp add: example_opts_with_def)
  have all: "\<forall>q\<in>set (ExtensionProviders (Mesh (push ?opts))).
      EqualFold example_globals (ext_Name q)
        (case Providers example_tracingCfg of
           [] \<Rightarrow> GetDefaultTracing (DefaultProviders (Mesh (push ?opts)))
         | r # rs \<Rightarrow> ref_Name r)
      \<longrightarrow> snd (configureFromProviderConfig example_globals (push ?opts) (Metadata (proxy ?opts)) q) \<noteq> None"
    using fails by (simp add: provs)
  have cfg: "?cfg = example_proxyCfg"
    by (simp add: example_opts_with_def example_meta_def ProxyConfigOrDefault_def)
  have random: "RandomSampling (configureSampling example_globals empty_Tracing
      (RandomSamplingPercentage example_tracingCfg) example_proxyCfg) = Some (Finite 50)"
    by (simp add: RandomSampling_configureSampling example_tracingCfg_def fallbackSamplingValue_def
        example_proxyCfg_def float_gt_def Let_def)
  have tags: "map Tag (CustomTags (configureCustomTags example_globals empty_Tracing
      (spec_CustomTags example_tracingCfg) example_proxyCfg))
      = [''env'', ''istio.canonical_revision'', ''istio.canonical_service'', ''istio.mesh_id'',
         ''istio.namespace'']"
    by (simp add: CustomTags_configureCustomTags example_tracingCfg_def example_globals_def
        defaultTags_def sort_Slice_def)
  note r = resolution_never_fails [where p = example_zipkin_unresolvable and providerName = "''zipkin''"
      and g = example_globals and opts = ?opts and ps = "[example_zipkin]"
      and spec = "Some example_spec" and tracingCfg = example_tracingCfg and others = "[]"
      and hcm = "\<lparr>Tracing = None\<rparr>"]
  note r2 = resolution_never_fails [where g = example_globals and opts = ?both
      and spec = "Some example_spec" and tracingCfg = example_tracingCfg and others = "[]"
      and hcm = "\<lparr>Tracing = None\<rparr>"]
  from r name fails have skip: "providerLoop example_globals ?opts ''zipkin''
      [example_zipkin_unresolvable, example_zipkin]
     = providerLoop example_globals ?opts ''zipkin'' [example_zipkin]"
    by blast
  from r spec all obtain t where
    "Tracing (configureTracingFromSpec example_globals (Some example_spec) ?opts \<lparr>Tracing = None\<rparr>)
       = Some t"
    "ClientSampling t = Some (Finite 100)"
    "RandomSampling t = RandomSampling (configureSampling example_globals empty_Tracing
        (RandomSamplingPercentage example_tracingCfg) ?cfg)"
    "CustomTags t = CustomTags (configureCustomTags example_globals empty_Tracing
        (spec_CustomTags example_tracingCfg) ?cfg)"
    "Provider t = None"
    by blast
  moreover from r2 spec obtain t2 where
    "Tracing (configureTracingFromSpec example_globals (Some example_spec) ?both \<lparr>Tracing = None\<rparr>)
       = Some t2"
    "Provider t2 =
       (case find (\<lambda>q. EqualFold example_globals (ext_Name q) ''zipkin''
                    \<and> snd (configureFromProviderConfig example_globals (push ?both)
                             (Metadata (proxy ?both)) q) = None)
               [example_zipkin_unresolvable, example_zipkin] of
          None \<Rightarrow> None
        | Some q \<Rightarrow> Provider (fst (configureFromProviderConfig example_globals (push ?both)
                                    (Metadata (proxy ?both)) q)))"
    unfolding req provs by blast
  moreover note skip
  ultimately show ?thesis
    unfolding cfg by (simp add: random tags name name2 fails builds)
qed

end
